theory Spec2Isabelle
  imports Main "HOL-Library.Multiset"
begin

section \<open>Remote command dispatcher (\<open>send_ssm_command\<close>)\<close>

text \<open>
  A \<open>CommandResult\<close> is the dict returned by \<open>send_ssm_command\<close>. The key \<open>error\<close> is
  present only in the \<open>FailedToSend\<close> result, hence an option. Statuses stay strings, as in
  the source, where the terminal ones are tested with \<open>status in (...)\<close>.
\<close>

record command_result =
  "instance" :: string
  status :: string
  error :: "string option"
  stdout :: string
  stderr :: string

text \<open>
  What one call of \<open>ssm.get_command_invocation\<close> can do: return an invocation (its
  \<open>Status\<close>, \<open>StandardOutputContent\<close> and \<open>StandardErrorContent\<close>), raise
  \<open>InvocationDoesNotExist\<close>, or raise any other exception (its text).
\<close>

datatype poll_response =
  Invocation string string string
  | InvocationDoesNotExist
  | PollError string

text \<open>
  The SSM client as the dispatcher sees it. \<open>send_command\<close> takes the instance id, the
  command and \<open>TimeoutSeconds\<close> and gives the command id (\<open>Inr\<close>) or the text of the
  exception raised (\<open>Inl\<close>). \<open>get_command_invocation\<close> takes the command id, the instance id
  and the number of the poll (0 for the first one): the remote status changes with time, so
  the answer may differ from one poll to the next.
\<close>

record ssm_client =
  send_command :: "string \<Rightarrow> string \<Rightarrow> int \<Rightarrow> string + string"
  get_command_invocation :: "string \<Rightarrow> string \<Rightarrow> nat \<Rightarrow> poll_response"

text \<open>
  The calls a dispatch makes, in order: the submission, each \<open>time.sleep(n)\<close> and each
  status poll. The trace is returned beside the result, so that the number of polls and
  the time slept can be stated.
\<close>

datatype event =
  SendCommand string string int
  | Sleep nat
  | GetCommandInvocation string string

definition terminal_statuses :: "string list" where
  "terminal_statuses = [''Success'', ''Failed'', ''TimedOut'', ''Cancelled'']"

text \<open>
  \<open>int(timeout_seconds / 2)\<close>: true division, then truncation towards zero. (The float
  quotient is exact for every integer below \<open>2 ^ 53\<close> in absolute value.)
\<close>

definition poll_budget :: "int \<Rightarrow> int" where
  "poll_budget timeout_seconds =
     (if 0 \<le> timeout_seconds then timeout_seconds div 2 else - ((- timeout_seconds) div 2))"

definition failed_to_send :: "string \<Rightarrow> string \<Rightarrow> command_result" where
  "failed_to_send instance_id e =
     \<lparr>instance = instance_id, status = ''FailedToSend'', error = Some e,
      stdout = [], stderr = []\<rparr>"

definition timed_out :: "string \<Rightarrow> command_result" where
  "timed_out instance_id =
     \<lparr>instance = instance_id, status = ''TimedOut'', error = None, stdout = [], stderr = []\<rparr>"

definition after :: "event list \<Rightarrow> command_result \<times> event list \<Rightarrow> command_result \<times> event list" where
  "after evs r = (fst r, evs @ snd r)"

text \<open>
  The loop \<open>for _ in range(n)\<close> of the source: \<open>k\<close> is the number of polls already made,
  the last argument the number of iterations left.
\<close>

fun poll :: "ssm_client \<Rightarrow> string \<Rightarrow> string \<Rightarrow> nat \<Rightarrow> nat \<Rightarrow> command_result \<times> event list" where
  "poll ssm cmd_id instance_id k 0 = (timed_out instance_id, [])"
| "poll ssm cmd_id instance_id k (Suc n) =
     (case get_command_invocation ssm cmd_id instance_id k of
        Invocation st out err \<Rightarrow>
          if st \<in> set terminal_statuses
          then (\<lparr>instance = instance_id, status = st, error = None, stdout = out, stderr = err\<rparr>,
                [Sleep 2, GetCommandInvocation cmd_id instance_id])
          else after [Sleep 2, GetCommandInvocation cmd_id instance_id]
                 (poll ssm cmd_id instance_id (Suc k) n)
      | InvocationDoesNotExist \<Rightarrow>
          after [Sleep 2, GetCommandInvocation cmd_id instance_id, Sleep 1]
            (poll ssm cmd_id instance_id (Suc k) n)
      | PollError e \<Rightarrow>
          after [Sleep 2, GetCommandInvocation cmd_id instance_id]
            (poll ssm cmd_id instance_id (Suc k) n))"

definition send_ssm_command ::
  "ssm_client \<Rightarrow> string \<Rightarrow> string \<Rightarrow> int \<Rightarrow> command_result \<times> event list" where
  "send_ssm_command ssm instance_id command timeout_seconds =
     (case send_command ssm instance_id command timeout_seconds of
        Inl e \<Rightarrow> (failed_to_send instance_id e, [SendCommand instance_id command timeout_seconds])
      | Inr cmd_id \<Rightarrow>
          after [SendCommand instance_id command timeout_seconds]
            (poll ssm cmd_id instance_id 0 (nat (poll_budget timeout_seconds))))"

text \<open>Observations on a trace: the seconds slept and the number of status polls.\<close>

fun slept :: "event list \<Rightarrow> nat" where
  "slept [] = 0"
| "slept (Sleep n # evs) = n + slept evs"
| "slept (_ # evs) = slept evs"

fun polls :: "event list \<Rightarrow> nat" where
  "polls [] = 0"
| "polls (GetCommandInvocation _ _ # evs) = Suc (polls evs)"
| "polls (_ # evs) = polls evs"

text \<open>The events of poll number \<open>k\<close> when it does not end the loop.\<close>

definition poll_events :: "ssm_client \<Rightarrow> string \<Rightarrow> string \<Rightarrow> nat \<Rightarrow> event list" where
  "poll_events ssm cmd_id instance_id k =
     [Sleep 2, GetCommandInvocation cmd_id instance_id] @
     (if get_command_invocation ssm cmd_id instance_id k = InvocationDoesNotExist
      then [Sleep 1] else [])"

definition is_terminal :: "poll_response \<Rightarrow> bool" where
  "is_terminal r = (case r of Invocation st _ _ \<Rightarrow> st \<in> set terminal_statuses | _ \<Rightarrow> False)"

text \<open>Three clients for concrete runs: one whose invocation never becomes visible, one that
  rejects every submission, and one whose command has succeeded at the first poll.\<close>

definition ssm_never_visible :: ssm_client where
  "ssm_never_visible =
     \<lparr>send_command = (\<lambda>_ _ _. Inr ''cmd-1''),
      get_command_invocation = (\<lambda>_ _ _. InvocationDoesNotExist)\<rparr>"

definition ssm_rejecting :: ssm_client where
  "ssm_rejecting =
     \<lparr>send_command = (\<lambda>_ _ _. Inl ''AccessDenied''),
      get_command_invocation = (\<lambda>_ _ _. InvocationDoesNotExist)\<rparr>"

definition ssm_immediate :: ssm_client where
  "ssm_immediate =
     \<lparr>send_command = (\<lambda>_ _ _. Inr ''cmd-1''),
      get_command_invocation = (\<lambda>_ _ _. Invocation ''Success'' ''done'' [])\<rparr>"

section \<open>Instance resolver (\<open>resolve_instances\<close>)\<close>

text \<open>
  \<open>str.strip()\<close> removes the white space of \<open>str.isspace\<close> at both ends. Tokens are taken
  as ASCII text, where it is the characters 9 to 13, 28 to 31 and the space.
\<close>

definition py_isspace :: "char \<Rightarrow> bool" where
  "py_isspace c = ((of_char c :: nat) \<in> set [9, 10, 11, 12, 13, 28, 29, 30, 31, 32])"

definition strip :: "string \<Rightarrow> string" where
  "strip s = rev (dropWhile py_isspace (rev (dropWhile py_isspace s)))"

definition is_hex_digit :: "char \<Rightarrow> bool" where
  "is_hex_digit c = (c \<in> set ''0123456789abcdefABCDEF'')"

text \<open>
  \<open>re.match(r"^i-[0-9a-fA-F]+$", item)\<close>. In Python \<open>$\<close> also matches just before a
  newline that ends the string.
\<close>

definition matches_instance_id :: "string \<Rightarrow> bool" where
  "matches_instance_id item =
     (case item of
        a # b # rest \<Rightarrow>
          a = CHR ''i'' \<and> b = CHR ''-'' \<and> takeWhile is_hex_digit rest \<noteq> [] \<and>
          (dropWhile is_hex_digit rest = [] \<or> dropWhile is_hex_digit rest = [CHR 0x0A])
      | _ \<Rightarrow> False)"

text \<open>
  \<open>ec2.describe_instances\<close> filtered by the \<open>Name\<close> tag and the running state: it takes the
  number of lookups made before this one (the inventory changes with time) and the tag
  value, and gives the reservations, each the list of its instance ids (\<open>Inr\<close>), or the text
  of the exception raised (\<open>Inl\<close>).
\<close>

type_synonym ec2_client = "nat \<Rightarrow> string \<Rightarrow> string + string list list"

definition warn_not_found :: "string \<Rightarrow> string" where
  "warn_not_found item =
     ''[WARN] No running instance found with Name tag '' @ [CHR 0x27] @ item @ [CHR 0x27]"

definition warn_error :: "string \<Rightarrow> string \<Rightarrow> string" where
  "warn_error item e =
     ''[WARN] Error resolving '' @ [CHR 0x27] @ item @ [CHR 0x27] @ '': '' @ e"

text \<open>
  One iteration of the first loop, on the state (\<open>out\<close>, the lines logged, the number of
  lookups made).
\<close>

definition resolve_item ::
  "ec2_client \<Rightarrow> string \<Rightarrow> string list \<times> string list \<times> nat \<Rightarrow> string list \<times> string list \<times> nat" where
  "resolve_item ec2 raw s =
     (case s of (out, logged, calls) \<Rightarrow>
        let item = strip raw in
        if item = [] then (out, logged, calls)
        else if matches_instance_id item then (out @ [item], logged, calls)
        else
          (case ec2 calls item of
             Inr reservations \<Rightarrow>
               let ids = concat reservations in
               if ids \<noteq> [] then (out @ ids, logged, Suc calls)
               else (out, logged @ [warn_not_found item], Suc calls)
           | Inl e \<Rightarrow> (out, logged @ [warn_error item e], Suc calls)))"

text \<open>One iteration of the second loop, on the state (\<open>result\<close>, \<open>seen\<close>).\<close>

definition dedupe_step :: "string \<Rightarrow> string list \<times> string set \<Rightarrow> string list \<times> string set" where
  "dedupe_step i s =
     (case s of (result, seen) \<Rightarrow>
        if i \<notin> seen then (result @ [i], insert i seen) else (result, seen))"

text \<open>The second loop without its accumulators: what it appends to \<open>result\<close> when it
  starts from the set \<open>seen\<close>.\<close>

fun keep_first :: "string set \<Rightarrow> string list \<Rightarrow> string list" where
  "keep_first seen [] = []"
| "keep_first seen (x # xs) =
     (if x \<in> seen then keep_first seen xs else x # keep_first (insert x seen) xs)"

text \<open>The list \<open>out\<close> when the first loop ends: every identifier the tokens produced, in
  order, before deduplication.\<close>

definition resolved_before_dedupe :: "ec2_client \<Rightarrow> string list \<Rightarrow> string list" where
  "resolved_before_dedupe ec2 raw_list = fst (fold (resolve_item ec2) raw_list ([], [], 0))"

text \<open>The function returns \<open>result\<close>; the lines it logged are returned beside it.\<close>

definition resolve_instances :: "ec2_client \<Rightarrow> string list \<Rightarrow> string list \<times> string list" where
  "resolve_instances ec2 raw_list =
     (case fold (resolve_item ec2) raw_list ([], [], 0) of
        (out, logged, calls) \<Rightarrow> (fst (fold dedupe_step out ([], {})), logged))"

text \<open>The position of the first occurrence of \<open>x\<close> in \<open>xs\<close> (the length of \<open>xs\<close> when there is
  none).\<close>

definition first_index :: "'a list \<Rightarrow> 'a \<Rightarrow> nat" where
  "first_index xs x = length (takeWhile (\<lambda>y. y \<noteq> x) xs)"

text \<open>An inventory in which the tag \<open>web\<close> names the running instance \<open>i-222\<close> and no other
  tag names any.\<close>

definition ec2_web :: ec2_client where
  "ec2_web calls name = (if name = ''web'' then Inr [[''i-222'']] else Inr [])"

section \<open>Parallel execution engine (\<open>run_parallel\<close>)\<close>

text \<open>
  The exceptions that can leave \<open>run_parallel\<close>: \<open>ThreadPoolExecutor(max_workers=n)\<close> raises
  \<open>ValueError\<close> when \<open>n\<close> is not positive; \<open>console.print\<close> raises \<open>MarkupError\<close> (below);
  \<open>session.client("ssm")\<close>, the first statement of \<open>send_ssm_command\<close>, stands before the
  \<open>try\<close> of that function, so what it raises leaves the task (\<open>SessionError\<close>, with the text
  of the exception). \<open>run_parallel\<close> catches nothing.
\<close>

datatype py_error = ValueError string | MarkupError string | SessionError string

subsection \<open>Logging\<close>

text \<open>
  \<open>log(s)\<close> appends a line to the session file and prints it with \<open>console.print\<close>; either
  step can raise. The environment of \<open>log\<close> is a function: \<open>env n s\<close> is the exception that
  the call number \<open>n\<close> of \<open>log\<close> raises on the message \<open>s\<close>, and \<open>None\<close> when the call
  returns. Successive calls stop at the first exception.
\<close>

type_synonym log_env = "nat \<Rightarrow> string \<Rightarrow> py_error option"

fun log_all :: "log_env \<Rightarrow> nat \<Rightarrow> string list \<Rightarrow> py_error option" where
  "log_all env n [] = None"
| "log_all env n (s # rest) =
     (case env n s of Some e \<Rightarrow> Some e | None \<Rightarrow> log_all env (Suc n) rest)"

text \<open>
  \<open>console.print\<close> of the library rich reads its argument as console markup. A tag is an
  opening bracket, a character of \<open>[a-z#/@]\<close>, then characters other than an opening
  bracket up to the next closing bracket; an odd number of backslashes just before the
  opening bracket makes it plain text. \<open>markup_tags\<close> gives the texts of the tags of a
  string, in order: \<open>b\<close> counts the backslashes just read, and the option holds the text of
  the tag being read (\<open>Some []\<close> just after the opening bracket).
\<close>

definition tag_start :: "char \<Rightarrow> bool" where
  "tag_start c = (c \<in> set ''abcdefghijklmnopqrstuvwxyz#/@'')"

fun markup_tags :: "nat \<Rightarrow> string option \<Rightarrow> string \<Rightarrow> string list" where
  "markup_tags b t [] = []"
| "markup_tags b None (c # cs) =
     (if c = CHR 0x5C then markup_tags (Suc b) None cs
      else if c = CHR ''['' then markup_tags b (Some []) cs
      else markup_tags 0 None cs)"
| "markup_tags b (Some t) (c # cs) =
     (if t = [] then
        (if tag_start c then markup_tags b (Some [c]) cs
         else if c = CHR ''['' then markup_tags 0 (Some []) cs
         else if c = CHR 0x5C then markup_tags 1 None cs
         else markup_tags 0 None cs)
      else if c = CHR '']'' then (if even b then [t] else []) @ markup_tags 0 None cs
      else if c = CHR ''['' then
        markup_tags (length (takeWhile (\<lambda>d. d = CHR 0x5C) (rev t))) (Some []) cs
      else markup_tags b (Some (t @ [c])) cs)"

text \<open>
  The text of a tag is its name, and after the first \<open>=\<close> its parameters. The tags are
  rendered with a stack of the open tags (the last opened first). A name that starts with
  \<open>/\<close> closes: the rest of the name, stripped, is looked up in the stack after
  \<open>Style.normalize\<close> and the first open tag of that name is removed, or the last opened tag
  when the rest is empty; when there is no such tag rich raises \<open>MarkupError\<close>. When the
  tag removed is a handler (its name starts with \<open>@\<close>) with parameters, they are evaluated,
  and \<open>MarkupError\<close> is raised when that fails. Any other tag is pushed under its normalized
  name. Two parts of rich are parameters: \<open>norm_style\<close> is \<open>Style.normalize\<close> (the canonical
  form of a style definition, any other name stripped and in lower case), and
  \<open>literal_eval p\<close> is the error, if any, of evaluating the handler parameters \<open>p\<close>.
\<close>

type_synonym tag = "string \<times> string option"

definition tag_of :: "string \<Rightarrow> tag" where
  "tag_of text =
     (let name = takeWhile (\<lambda>c. c \<noteq> CHR ''='') text
      in (name, if length name < length text then Some (drop (Suc (length name)) text)
                else None))"

fun pop_style :: "string \<Rightarrow> tag list \<Rightarrow> (tag \<times> tag list) option" where
  "pop_style name [] = None"
| "pop_style name (t # stack) =
     (if fst t = name then Some (t, stack)
      else (case pop_style name stack of
              None \<Rightarrow> None
            | Some (u, rest) \<Rightarrow> Some (u, t # rest)))"

definition pop_tag :: "(string \<Rightarrow> string) \<Rightarrow> string \<Rightarrow> tag list \<Rightarrow> (tag \<times> tag list) option" where
  "pop_tag norm_style style_name stack =
     (if style_name \<noteq> [] then pop_style (norm_style style_name) stack
      else (case stack of [] \<Rightarrow> None | t # rest \<Rightarrow> Some (t, rest)))"

definition handler_error :: "(string \<Rightarrow> string option) \<Rightarrow> tag \<Rightarrow> string option" where
  "handler_error literal_eval t =
     (if take 1 (fst t) = ''@''
      then (case snd t of
              None \<Rightarrow> None
            | Some p \<Rightarrow> if p = [] then None else literal_eval p)
      else None)"

fun render_tags ::
  "(string \<Rightarrow> string) \<Rightarrow> (string \<Rightarrow> string option) \<Rightarrow> tag list \<Rightarrow> string list \<Rightarrow> py_error option" where
  "render_tags norm_style literal_eval stack [] = None"
| "render_tags norm_style literal_eval stack (text # rest) =
     (if take 1 (fst (tag_of text)) = ''/''
      then (case pop_tag norm_style (strip (drop 1 (fst (tag_of text)))) stack of
              None \<Rightarrow> Some (MarkupError (''['' @ text @ '']''))
            | Some (opened, stack') \<Rightarrow>
                (case handler_error literal_eval opened of
                   Some e \<Rightarrow> Some (MarkupError e)
                 | None \<Rightarrow> render_tags norm_style literal_eval stack' rest))
      else render_tags norm_style literal_eval
             ((norm_style (fst (tag_of text)), snd (tag_of text)) # stack) rest)"

text \<open>
  The console as an environment of \<open>log\<close>, when writing the session file and the terminal
  does not fail. The time stamp that \<open>log\<close> puts in front of the message starts with a digit
  and holds no other bracket, so it is no tag and the tags of the line are those of the
  message.
\<close>

definition rich_console :: "(string \<Rightarrow> string) \<Rightarrow> (string \<Rightarrow> string option) \<Rightarrow> log_env" where
  "rich_console norm_style literal_eval n s =
     render_tags norm_style literal_eval [] (markup_tags 0 None s)"

subsection \<open>The engine\<close>

text \<open>
  \<open>as_completed\<close> yields every future once, in an order the code does not fix: the futures
  that are done when it is called in the order of a set, the others as they finish. The
  order is the environment's choice: \<open>sched k\<close> picks, among the futures not yet yielded,
  the one yielded as number \<open>k\<close>. Every order comes from some \<open>sched\<close>.
\<close>

function as_completed :: "(nat \<Rightarrow> nat) \<Rightarrow> nat \<Rightarrow> 'a list \<Rightarrow> 'a list" where
  "as_completed sched k [] = []"
| "as_completed sched k (f # fs) =
     (let i = sched k mod length (f # fs)
      in (f # fs) ! i # as_completed sched (Suc k) (take i (f # fs) @ drop (Suc i) (f # fs)))"
  by pat_completeness auto
termination
  by (relation "measure (\<lambda>(sched, k, fs). length fs)") auto

text \<open>The messages \<open>run_parallel\<close> passes to \<open>log\<close> for one result.\<close>

definition log_result :: "command_result \<Rightarrow> string list" where
  "log_result res =
     (if status res = ''Success''
      then [''['' @ instance res @ ''] SUCCESS''] @
           (if stdout res \<noteq> []
            then [''['' @ instance res @ ''] STDOUT:'' @ [CHR 0x0A] @ stdout res]
            else [])
      else [''['' @ instance res @ ''] STATUS='' @ status res @ ''; STDERR:'' @ [CHR 0x0A]
              @ stderr res])"

text \<open>
  What \<open>fut.result()\<close> gives for the task of one instance: the task is \<open>send_ssm_command\<close>
  with the default timeout of 300; \<open>client\<close> is what \<open>session.client("ssm")\<close> does in that
  task, the client (\<open>Inr\<close>) or the exception it raises (\<open>Inl\<close>), which \<open>fut.result()\<close> raises
  again.
\<close>

definition future_result :: "py_error + ssm_client \<Rightarrow> string \<Rightarrow> string \<Rightarrow> py_error + command_result" where
  "future_result client instance_id command =
     (case client of
        Inl e \<Rightarrow> Inl e
      | Inr ssm \<Rightarrow> Inr (fst (send_ssm_command ssm instance_id command 300)))"

text \<open>
  The loop over the completed futures: the result is appended to \<open>results\<close> and logged.
  An exception of \<open>fut.result()\<close> or of \<open>log\<close> ends the loop and leaves \<open>run_parallel\<close> (the
  pool waits for the running tasks on the way out); the results collected so far are lost.
  \<open>logged\<close> holds the messages logged so far.
\<close>

fun collect ::
  "log_env \<Rightarrow> (py_error + command_result) list \<Rightarrow> command_result list \<Rightarrow> string list \<Rightarrow>
     py_error + command_result list \<times> string list" where
  "collect env [] results logged = Inr (results, logged)"
| "collect env (fut # futs) results logged =
     (case fut of
        Inl e \<Rightarrow> Inl e
      | Inr res \<Rightarrow>
          (case log_all env (length logged) (log_result res) of
             Some e \<Rightarrow> Inl e
           | None \<Rightarrow> collect env futs (results @ [res]) (logged @ log_result res)))"

text \<open>
  \<open>session k\<close> is what \<open>session.client("ssm")\<close> does in the task of the instance at position
  \<open>k\<close>; the client it gives is the SSM service as that task observes it.
\<close>

definition run_parallel ::
  "log_env \<Rightarrow> (nat \<Rightarrow> py_error + ssm_client) \<Rightarrow> (nat \<Rightarrow> nat) \<Rightarrow> string list \<Rightarrow> string \<Rightarrow> int \<Rightarrow>
     py_error + command_result list \<times> string list" where
  "run_parallel env session sched instance_ids command concurrency =
     (if concurrency \<le> 0 then Inl (ValueError ''max_workers must be greater than 0'')
      else
        collect env
          (as_completed sched 0
             (map (\<lambda>(k, iid). future_result (session k) iid command)
                (enumerate 0 instance_ids)))
          [] [])"

text \<open>The dispatch of the task at position \<open>k\<close>, on its own, with the client \<open>world k\<close>.\<close>

definition own_result :: "(nat \<Rightarrow> ssm_client) \<Rightarrow> string list \<Rightarrow> string \<Rightarrow> nat \<Rightarrow> command_result" where
  "own_result world instance_ids command k =
     fst (send_ssm_command (world k) (instance_ids ! k) command 300)"

text \<open>
  Concrete runs. The console of the runs below: their messages hold no style definition
  and no handler, so \<open>Style.normalize\<close> gives each tag name as it is and nothing is
  evaluated. A batch of five in which the submission to the third instance is rejected and
  the other commands succeed. A batch of two in which the command of the second instance
  fails remotely and leaves a path between brackets on its standard error.
\<close>

definition console :: log_env where
  "console = rich_console (\<lambda>name. name) (\<lambda>p. None)"

definition world_one_rejecting :: "nat \<Rightarrow> ssm_client" where
  "world_one_rejecting k = (if k = 2 then ssm_rejecting else ssm_immediate)"

definition batch_of_five :: "string list" where
  "batch_of_five = [''i-0a'', ''i-0b'', ''i-0c'', ''i-0d'', ''i-0e'']"

definition ssm_failing :: ssm_client where
  "ssm_failing =
     \<lparr>send_command = (\<lambda>_ _ _. Inr ''cmd-2''),
      get_command_invocation =
        (\<lambda>_ _ _. Invocation ''Failed'' [] ''[/etc/app.conf] not found'')\<rparr>"

definition world_one_failing :: "nat \<Rightarrow> ssm_client" where
  "world_one_failing k = (if k = 1 then ssm_failing else ssm_immediate)"

section \<open>Remote patch generator (\<open>action_append_after_match\<close>)\<close>

subsection \<open>The command string\<close>

text \<open>\<open>s.replace("'", "'\"'\"'")\<close>: every single quote becomes the five characters
  quote, double quote, quote, double quote, quote.\<close>

definition escape_quotes :: "string \<Rightarrow> string" where
  "escape_quotes s =
     concat (map (\<lambda>c. if c = CHR 0x27 then [CHR 0x27, CHR 0x22, CHR 0x27, CHR 0x22, CHR 0x27]
                        else [c]) s)"

text \<open>
  \<open>shlex.quote\<close> of the standard library: the empty string becomes two quotes, a string of
  safe characters only (\<open>[A-Za-z0-9_@%+=:,./-]\<close>) is returned as it is, any other string is put
  between single quotes with its own quotes replaced as above.
\<close>

definition shlex_safe :: "char \<Rightarrow> bool" where
  "shlex_safe c =
     (c \<in> set ''abcdefghijklmnopqrstuvwxyzABCDEFGHIJKLMNOPQRSTUVWXYZ0123456789_@%+=:,./-'')"

definition shlex_quote :: "string \<Rightarrow> string" where
  "shlex_quote s =
     (if s = [] then [CHR 0x27, CHR 0x27]
      else if list_all shlex_safe s then s
      else [CHR 0x27] @ escape_quotes s @ [CHR 0x27])"

text \<open>The awk program of the source, between its single quotes.\<close>

definition awk_program_text :: string where
  \<open>awk_program_text =
     ''BEGIN{found=0} {print} !found && $0 ~ pattern { match($0, /[^[:space:]]/); lead = (RSTART>1?substr($0,1,RSTART-1):""); print lead new_line; found=1 }''\<close>

definition awk_script :: "string \<Rightarrow> string \<Rightarrow> string \<Rightarrow> string" where
  "awk_script filepath match_pattern new_line =
     ''awk -v pattern='' @ [CHR 0x27] @ escape_quotes match_pattern @ [CHR 0x27] @
     '' -v new_line='' @ [CHR 0x27] @ escape_quotes new_line @ [CHR 0x27] @
     '' '' @ [CHR 0x27] @ awk_program_text @ [CHR 0x27] @ '' '' @
     shlex_quote filepath @ '' > /tmp/tm_cli_tmp.$$ && mv /tmp/tm_cli_tmp.$$ '' @
     shlex_quote filepath"

definition action_append_after_match ::
  "ssm_client \<Rightarrow> string \<Rightarrow> string \<Rightarrow> string \<Rightarrow> string \<Rightarrow> command_result \<times> event list" where
  "action_append_after_match ssm instance_id filepath match_pattern new_line =
     send_ssm_command ssm instance_id (awk_script filepath match_pattern new_line) 300"

subsection \<open>How the remote shell reads the command: quoting\<close>

text \<open>
  The command runs under \<open>sh\<close> on the instance. This is the quoting of the POSIX shell
  (Shell Command Language, section 2.2), the part of the shell that decides whether a
  character of the pattern or of the inserted line can act on the command. The scanner
  removes the quoting characters and marks every remaining character: \<open>Literal\<close> when it
  was quoted and stands for itself, \<open>Plain\<close> when the shell still interprets it (blanks
  separate words, operators such as \<open>;\<close>, \<open>&\<close>, \<open>|\<close> and \<open>>\<close> build commands and redirections,
  \<open>$\<close> and the backquote start expansions). Between single quotes every character is
  literal up to the next single quote. Between double quotes \<open>$\<close> and the backquote stay
  active, and a backslash quotes \<open>$\<close>, the backquote, the double quote, the backslash and
  the newline only. A quote that is never closed gives \<open>None\<close>.
\<close>

datatype quoting = Unquoted | SingleQuoted | DoubleQuoted

datatype shell_char = Plain char | Literal char

definition scanned :: "shell_char \<Rightarrow> shell_char list option \<Rightarrow> shell_char list option" where
  "scanned c r = map_option ((#) c) r"

fun sh_scan :: "quoting \<Rightarrow> string \<Rightarrow> shell_char list option" where
  "sh_scan Unquoted [] = Some []"
| "sh_scan SingleQuoted [] = None"
| "sh_scan DoubleQuoted [] = None"
| "sh_scan Unquoted (c # cs) =
     (if c = CHR 0x27 then sh_scan SingleQuoted cs
      else if c = CHR 0x22 then sh_scan DoubleQuoted cs
      else if c = CHR 0x5C then
        (case cs of
           [] \<Rightarrow> Some [Plain c]
         | d # ds \<Rightarrow> if d = CHR 0x0A then sh_scan Unquoted ds
                     else scanned (Literal d) (sh_scan Unquoted ds))
      else scanned (Plain c) (sh_scan Unquoted cs))"
| "sh_scan SingleQuoted (c # cs) =
     (if c = CHR 0x27 then sh_scan Unquoted cs
      else scanned (Literal c) (sh_scan SingleQuoted cs))"
| "sh_scan DoubleQuoted (c # cs) =
     (if c = CHR 0x22 then sh_scan Unquoted cs
      else if c = CHR 0x5C then
        (case cs of
           [] \<Rightarrow> None
         | d # ds \<Rightarrow>
             if d \<in> set [CHR ''$'', CHR 0x60, CHR 0x22, CHR 0x5C]
             then scanned (Literal d) (sh_scan DoubleQuoted ds)
             else if d = CHR 0x0A then sh_scan DoubleQuoted ds
             else scanned (Literal c) (sh_scan DoubleQuoted cs))
      else if c = CHR ''$'' \<or> c = CHR 0x60 then scanned (Plain c) (sh_scan DoubleQuoted cs)
      else scanned (Literal c) (sh_scan DoubleQuoted cs))"

text \<open>A character that has no part in quoting: outside quotes it is scanned as itself.\<close>

definition no_quoting :: "char \<Rightarrow> bool" where
  "no_quoting c = (c \<noteq> CHR 0x27 \<and> c \<noteq> CHR 0x22 \<and> c \<noteq> CHR 0x5C)"

text \<open>The file path as the shell reads it after \<open>shlex.quote\<close>: left as it is when all its
  characters are safe, literal otherwise.\<close>

definition scanned_path :: "string \<Rightarrow> shell_char list" where
  "scanned_path filepath =
     (if filepath \<noteq> [] \<and> list_all shlex_safe filepath then map Plain filepath
      else map Literal filepath)"

subsection \<open>What the awk program does\<close>

text \<open>
  The semantics of the awk program of the source, rule by rule. The match \<open>$0 ~ pattern\<close>
  of a line against the dynamic regular expression held in \<open>pattern\<close> is a parameter,
  \<open>matches line pattern\<close>.
\<close>

text \<open>
  awk does not assign the text after \<open>-v name=\<close> as it is: it reads it as the inside of a
  string constant and replaces backslash sequences. The sequences that every awk reads
  alike are a backslash before a backslash or a double quote, which gives that character,
  and before \<open>a\<close>, \<open>b\<close>, \<open>f\<close>, \<open>n\<close>, \<open>r\<close>, \<open>t\<close>, \<open>v\<close>, which gives the control character
  (a newline for \<open>n\<close>). On the other sequences (an octal or hexadecimal code, a slash, any
  other character, a backslash at the end of the text) the implementations differ:
  \<open>other rest\<close> is what the awk at hand makes of the text \<open>rest\<close> that follows the
  backslash of such a sequence. A text without a backslash is assigned as it is.
\<close>

fun awk_escapes :: "(string \<Rightarrow> string) \<Rightarrow> string \<Rightarrow> string" where
  "awk_escapes other [] = []"
| "awk_escapes other [c] = (if c = CHR 0x5C then other [] else [c])"
| "awk_escapes other (c # d # rest) =
     (if c = CHR 0x5C then
        (if d = CHR 0x5C then CHR 0x5C # awk_escapes other rest
         else if d = CHR 0x22 then CHR 0x22 # awk_escapes other rest
         else if d = CHR ''a'' then CHR 0x07 # awk_escapes other rest
         else if d = CHR ''b'' then CHR 0x08 # awk_escapes other rest
         else if d = CHR ''f'' then CHR 0x0C # awk_escapes other rest
         else if d = CHR ''n'' then CHR 0x0A # awk_escapes other rest
         else if d = CHR ''r'' then CHR 0x0D # awk_escapes other rest
         else if d = CHR ''t'' then CHR 0x09 # awk_escapes other rest
         else if d = CHR ''v'' then CHR 0x0B # awk_escapes other rest
         else other (d # rest))
      else c # awk_escapes other (d # rest))"

text \<open>\<open>[:space:]\<close> in the POSIX locale: space, tab, newline, vertical tab, form feed and
  carriage return.\<close>

definition awk_isspace :: "char \<Rightarrow> bool" where
  "awk_isspace c = ((of_char c :: nat) \<in> set [32, 9, 10, 11, 12, 13])"

text \<open>\<open>match($0, /[^[:space:]]/)\<close> sets \<open>RSTART\<close> to the position, counted from 1, of the
  first character that is not white space, and to 0 when there is none.\<close>

definition rstart :: "string \<Rightarrow> nat" where
  "rstart line =
     (if list_all awk_isspace line then 0 else Suc (length (takeWhile awk_isspace line)))"

text \<open>\<open>substr(s, m, n)\<close> for \<open>m\<close> at least 1.\<close>

definition substr :: "string \<Rightarrow> nat \<Rightarrow> nat \<Rightarrow> string" where
  "substr s m n = take n (drop (m - 1) s)"

text \<open>\<open>lead = (RSTART>1?substr($0,1,RSTART-1):"")\<close>\<close>

definition lead :: "string \<Rightarrow> string" where
  "lead line = (if rstart line > 1 then substr line 1 (rstart line - 1) else [])"

text \<open>
  The main loop over the records, with the variable \<open>found\<close> (set to 0 by \<open>BEGIN\<close>): the
  rule \<open>{print}\<close> prints the record, the second rule prints \<open>lead new_line\<close> and sets
  \<open>found\<close> when \<open>found\<close> is not set and the record matches.
\<close>

fun awk_rules :: "(string \<Rightarrow> string \<Rightarrow> bool) \<Rightarrow> string \<Rightarrow> string \<Rightarrow> bool \<Rightarrow> string list \<Rightarrow> string list" where
  "awk_rules matches pattern new_line found [] = []"
| "awk_rules matches pattern new_line found (line # rest) =
     line #
     (if \<not> found \<and> matches line pattern
      then (lead line @ new_line) # awk_rules matches pattern new_line True rest
      else awk_rules matches pattern new_line found rest)"

text \<open>The program run on a list of records, with the pattern and the inserted line as they
  stand in the command after \<open>-v pattern=\<close> and \<open>-v new_line=\<close>.\<close>

definition awk_run ::
  "(string \<Rightarrow> string \<Rightarrow> bool) \<Rightarrow> (string \<Rightarrow> string) \<Rightarrow> string \<Rightarrow> string \<Rightarrow> string list \<Rightarrow> string list" where
  "awk_run matches other match_pattern new_line records =
     awk_rules matches (awk_escapes other match_pattern) (awk_escapes other new_line) False
       records"

text \<open>
  awk reads its input as records separated by newlines: a newline ends a record, and the
  characters after the last newline, if any, are a last record. \<open>print\<close> writes a record
  followed by a newline.
\<close>

fun records_from :: "string \<Rightarrow> string \<Rightarrow> string list" where
  "records_from cur [] = (if cur = [] then [] else [cur])"
| "records_from cur (c # cs) =
     (if c = CHR 0x0A then cur # records_from [] cs else records_from (cur @ [c]) cs)"

definition records :: "string \<Rightarrow> string list" where
  "records content = records_from [] content"

definition printed :: "string list \<Rightarrow> string" where
  "printed lines = concat (map (\<lambda>l. l @ [CHR 0x0A]) lines)"

text \<open>A file content with its last line ended by a newline.\<close>

definition newline_terminated :: "string \<Rightarrow> string" where
  "newline_terminated content =
     (if content = [] \<or> last content = CHR 0x0A then content else content @ [CHR 0x0A])"

text \<open>The match of a pattern that has no regular expression operator in it: the pattern
  occurs in the line.\<close>

fun literal_match :: "string \<Rightarrow> string \<Rightarrow> bool" where
  "literal_match [] pattern = (pattern = [])"
| "literal_match (c # cs) pattern =
     (take (length pattern) (c # cs) = pattern \<or> literal_match cs pattern)"

subsection \<open>How the remote shell runs the command\<close>

text \<open>
  The machine on which the command runs: the regular expression matching and the reading
  of backslash sequences of its awk, the process id of the shell that runs the command (in
  decimal digits), what the command finds on its standard input, and the fault that
  happens during the run, if any: the shell cannot create the file of a redirection, awk
  fails after it has written some lines (an input or output error, a pattern that is not
  a regular expression), or \<open>mv\<close> fails. The files are a map from paths to contents: a
  path stands for the file it names, and two different paths name two different files.
\<close>

datatype fault = CannotCreate | AwkFails nat | MvFails

record remote =
  regex_match :: "string \<Rightarrow> string \<Rightarrow> bool"
  other_escape :: "string \<Rightarrow> string"
  pid :: string
  stdin :: string
  fault :: "fault option"

record outcome =
  files :: "string \<rightharpoonup> string"
  exit_status :: nat

text \<open>
  After the quoting is removed the shell splits the command into tokens: an unquoted blank
  ends a word, \<open>>\<close> and \<open>&&\<close> are operators, and \<open>$$\<close> stands for the process id. The words
  are built from the quoted characters and from the unquoted characters that mean nothing
  to the shell, which are those \<open>shlex.quote\<close> leaves unquoted. \<open>acc\<close> holds the tokens
  read and \<open>cur\<close> the word being read. The command of the source needs no more of the
  shell: any other unquoted character, a digit string just before \<open>>\<close> and any other
  operator give \<open>None\<close>. A word that is an empty pair of quotes leaves no character in the
  scan and is dropped here; awk skips an empty operand, and \<open>mv\<close> fails on an empty
  operand as it does on a missing one.
\<close>

datatype token = Word string | Great | AndIf

definition flush :: "string \<Rightarrow> token list" where
  "flush cur = (if cur = [] then [] else [Word cur])"

fun sh_tokens :: "string \<Rightarrow> token list \<Rightarrow> string \<Rightarrow> shell_char list \<Rightarrow> token list option" where
  "sh_tokens p acc cur [] = Some (acc @ flush cur)"
| "sh_tokens p acc cur (Literal c # cs) = sh_tokens p acc (cur @ [c]) cs"
| "sh_tokens p acc cur (Plain c # cs) =
     (if c = CHR '' '' then sh_tokens p (acc @ flush cur) [] cs
      else if c = CHR ''>'' then
        (if cur \<noteq> [] \<and> list_all (\<lambda>d. d \<in> set ''0123456789'') cur then None
         else (case cs of
                 Plain d # ds \<Rightarrow>
                   if d \<in> set ''>&|'' then None
                   else sh_tokens p (acc @ flush cur @ [Great]) [] cs
               | _ \<Rightarrow> sh_tokens p (acc @ flush cur @ [Great]) [] cs))
      else if c = CHR ''&'' then
        (case cs of
           Plain d # ds \<Rightarrow>
             if d = CHR ''&'' then sh_tokens p (acc @ flush cur @ [AndIf]) [] ds else None
         | _ \<Rightarrow> None)
      else if c = CHR ''$'' then
        (case cs of
           Plain d # ds \<Rightarrow> if d = CHR ''$'' then sh_tokens p acc (cur @ p) ds else None
         | _ \<Rightarrow> None)
      else if shlex_safe c then sh_tokens p acc (cur @ [c]) cs
      else None)"

text \<open>
  The tokens are a list of simple commands joined by \<open>&&\<close>. A simple command is its words
  and the file its output is redirected to, if any (one redirection at most, followed by
  its file name; no empty command).
\<close>

type_synonym simple_command = "string list \<times> string option"

fun sh_parse :: "token list \<Rightarrow> simple_command \<Rightarrow> simple_command list option" where
  "sh_parse [] cmd = (if fst cmd = [] then None else Some [cmd])"
| "sh_parse (Word w # ts) cmd = sh_parse ts (fst cmd @ [w], snd cmd)"
| "sh_parse (Great # Word f # ts) cmd =
     (if snd cmd = None then sh_parse ts (fst cmd, Some f) else None)"
| "sh_parse (Great # ts) cmd = None"
| "sh_parse (AndIf # ts) cmd =
     (if fst cmd = [] then None
      else (case sh_parse ts ([], None) of None \<Rightarrow> None | Some cmds \<Rightarrow> Some (cmd # cmds)))"

subsection \<open>awk and mv\<close>

text \<open>
  An operand of awk of the form \<open>name=text\<close>, where \<open>name\<close> is a letter or an underscore
  followed by letters, digits and underscores, is no file: awk assigns the text to the
  variable when it reaches the operand. Option \<open>-v\<close> takes an assignment of the same form.
\<close>

definition awk_letter :: "char \<Rightarrow> bool" where
  "awk_letter c = (c \<in> set ''abcdefghijklmnopqrstuvwxyzABCDEFGHIJKLMNOPQRSTUVWXYZ_'')"

definition awk_name :: "string \<Rightarrow> bool" where
  "awk_name name =
     (case name of
        [] \<Rightarrow> False
      | c # cs \<Rightarrow> awk_letter c \<and> list_all (\<lambda>d. awk_letter d \<or> d \<in> set ''0123456789'') cs)"

definition assignment_of :: "string \<Rightarrow> (string \<times> string) option" where
  "assignment_of word =
     (let name = takeWhile (\<lambda>c. c \<noteq> CHR ''='') word
      in if length name < length word \<and> awk_name name
         then Some (name, drop (Suc (length name)) word)
         else None)"

text \<open>The options of the command line: each \<open>-v\<close> with its assignment; the first argument
  that is no option is the program. Other options are not modelled.\<close>

fun awk_options ::
  "(string \<times> string) list \<Rightarrow> string list \<Rightarrow> ((string \<times> string) list \<times> string list) option" where
  "awk_options vars [] = Some (vars, [])"
| "awk_options vars (a # rest) =
     (if a = ''-v'' then
        (case rest of
           [] \<Rightarrow> None
         | b # rest' \<Rightarrow>
             (case assignment_of b of
                None \<Rightarrow> None
              | Some nv \<Rightarrow> awk_options (vars @ [nv]) rest'))
      else if take 1 a = ''-'' then None
      else Some (vars, a # rest))"

text \<open>The value of a variable: the text of its last assignment, with the backslash sequences
  replaced; the empty string when it was never assigned.\<close>

definition awk_var :: "(string \<Rightarrow> string) \<Rightarrow> (string \<times> string) list \<Rightarrow> string \<Rightarrow> string" where
  "awk_var other vars name =
     (case map_of (rev vars) name of None \<Rightarrow> [] | Some text \<Rightarrow> awk_escapes other text)"

text \<open>
  One pass of the program over an input: the lines printed and the exit status. awk fails
  with status 2 when it cannot open its input (\<open>None\<close>) and when the fault of the machine
  stops it.
\<close>

definition awk_pass :: "remote \<Rightarrow> (string \<times> string) list \<Rightarrow> string option \<Rightarrow> string list \<times> nat" where
  "awk_pass env vars input =
     (case input of
        None \<Rightarrow> ([], 2)
      | Some content \<Rightarrow>
          (let out = awk_rules (regex_match env) (awk_var (other_escape env) vars ''pattern'')
                       (awk_var (other_escape env) vars ''new_line'') False (records content)
           in case fault env of
                Some (AwkFails k) \<Rightarrow> (take k out, 2)
              | _ \<Rightarrow> (out, 0)))"

text \<open>
  awk with the program of the source and at most one operand, as in the command of the
  source; any other command line is not modelled (\<open>None\<close>). Without a file operand awk
  reads its standard input: when there is no operand, when the operand is \<open>-\<close>, and when
  the operand is an assignment, which takes effect before the input is read. An assignment
  to \<open>found\<close> or to a name without a small letter (the names of the variables built into
  awk) changes how the program runs and is not modelled.
\<close>

definition awk :: "remote \<Rightarrow> (string \<rightharpoonup> string) \<Rightarrow> string list \<Rightarrow> (string list \<times> nat) option" where
  "awk env fs args =
     (case awk_options [] args of
        None \<Rightarrow> None
      | Some (vars, rest) \<Rightarrow>
          (case rest of
             [] \<Rightarrow> None
           | prog # operands \<Rightarrow>
               if prog \<noteq> awk_program_text then None
               else
                 (case operands of
                    [] \<Rightarrow> Some (awk_pass env vars (Some (stdin env)))
                  | [operand] \<Rightarrow>
                      if operand = ''-'' then Some (awk_pass env vars (Some (stdin env)))
                      else
                        (case assignment_of operand of
                           None \<Rightarrow> Some (awk_pass env vars (fs operand))
                         | Some (name, text) \<Rightarrow>
                             if name = ''found''
                                \<or> \<not> list_ex (\<lambda>c. c \<in> set ''abcdefghijklmnopqrstuvwxyz'') name
                             then None
                             else Some (awk_pass env (vars @ [(name, text)])
                                          (Some (stdin env))))
                  | _ \<Rightarrow> None)))"

text \<open>
  \<open>mv source target\<close>: it fails with status 1 when an operand is missing, when the source
  does not exist and when both operands are the same file. An operand that starts with
  \<open>-\<close> (other than \<open>-\<close> alone) is read as options, and more than two operands need a
  directory: both are not modelled.
\<close>

definition mv :: "remote \<Rightarrow> (string \<rightharpoonup> string) \<Rightarrow> string list \<Rightarrow> ((string \<rightharpoonup> string) \<times> nat) option" where
  "mv env fs args =
     (if list_ex (\<lambda>a. take 1 a = ''-'' \<and> a \<noteq> ''-'') args then None
      else
        (case args of
           [source, target] \<Rightarrow>
             (case fs source of
                None \<Rightarrow> Some (fs, 1)
              | Some content \<Rightarrow>
                  if source = target \<or> fault env = Some MvFails then Some (fs, 1)
                  else Some ((fs(source := None))(target \<mapsto> content), 0))
         | [] \<Rightarrow> Some (fs, 1)
         | [source] \<Rightarrow> Some (fs, 1)
         | _ \<Rightarrow> None))"

subsection \<open>Running the command\<close>

text \<open>
  A simple command: the shell first creates or empties the file of the redirection (the
  command is not run when it cannot, status 2), then runs the utility named by the first
  word, and what the utility prints goes to that file. Only \<open>awk\<close> and \<open>mv\<close> are modelled;
  \<open>mv\<close> prints nothing.
\<close>

definition sh_simple :: "remote \<Rightarrow> (string \<rightharpoonup> string) \<Rightarrow> simple_command \<Rightarrow> outcome option" where
  "sh_simple env fs cmd =
     (if snd cmd \<noteq> None \<and> fault env = Some CannotCreate
      then Some \<lparr>files = fs, exit_status = 2\<rparr>
      else
        (let fs1 = (case snd cmd of None \<Rightarrow> fs | Some f \<Rightarrow> fs(f \<mapsto> []))
         in case fst cmd of
              [] \<Rightarrow> None
            | utility # args \<Rightarrow>
                if utility = ''awk'' then
                  (case awk env fs1 args of
                     None \<Rightarrow> None
                   | Some (lines, st) \<Rightarrow>
                       Some \<lparr>files = (case snd cmd of
                                        None \<Rightarrow> fs1
                                      | Some f \<Rightarrow> fs1(f \<mapsto> printed lines)),
                             exit_status = st\<rparr>)
                else if utility = ''mv'' then
                  (case mv env fs1 args of
                     None \<Rightarrow> None
                   | Some (fs2, st) \<Rightarrow> Some \<lparr>files = fs2, exit_status = st\<rparr>)
                else None))"

text \<open>\<open>a && b\<close>: \<open>b\<close> runs only when \<open>a\<close> has ended with status 0.\<close>

fun sh_and_list :: "remote \<Rightarrow> (string \<rightharpoonup> string) \<Rightarrow> simple_command list \<Rightarrow> outcome option" where
  "sh_and_list env fs [] = Some \<lparr>files = fs, exit_status = 0\<rparr>"
| "sh_and_list env fs (cmd # rest) =
     (case sh_simple env fs cmd of
        None \<Rightarrow> None
      | Some r \<Rightarrow>
          if exit_status r = 0 \<and> rest \<noteq> [] then sh_and_list env (files r) rest else Some r)"

text \<open>The shell on a command string: a quote left open is a syntax error (status 2,
  nothing runs).\<close>

definition sh_run :: "remote \<Rightarrow> (string \<rightharpoonup> string) \<Rightarrow> string \<Rightarrow> outcome option" where
  "sh_run env fs script =
     (case sh_scan Unquoted script of
        None \<Rightarrow> Some \<lparr>files = fs, exit_status = 2\<rparr>
      | Some cs \<Rightarrow>
          (case sh_tokens (pid env) [] [] cs of
             None \<Rightarrow> None
           | Some ts \<Rightarrow>
               (case sh_parse ts ([], None) of
                  None \<Rightarrow> None
                | Some cmds \<Rightarrow> sh_and_list env fs cmds)))"

text \<open>The command of \<open>action_append_after_match\<close>, run on the instance.\<close>

definition run_patch_script ::
  "remote \<Rightarrow> (string \<rightharpoonup> string) \<Rightarrow> string \<Rightarrow> string \<Rightarrow> string \<Rightarrow> outcome option" where
  "run_patch_script env fs filepath match_pattern new_line =
     sh_run env fs (awk_script filepath match_pattern new_line)"

text \<open>The temporary file of the command, and a path that both awk and \<open>mv\<close> read as the
  name of a file: not empty, not starting with \<open>-\<close>, and no assignment.\<close>

definition tmp_path :: "remote \<Rightarrow> string" where
  "tmp_path env = ''/tmp/tm_cli_tmp.'' @ pid env"

definition file_operand :: "string \<Rightarrow> bool" where
  "file_operand path = (path \<noteq> [] \<and> take 1 path \<noteq> ''-'' \<and> assignment_of path = None)"

text \<open>A machine for concrete runs: patterns without regular expression operators, an awk
  that leaves as it is the text from a backslash sequence it does not know, process id
  4242, nothing on the standard input and no fault.\<close>

definition plain_remote :: remote where
  "plain_remote =
     \<lparr>regex_match = literal_match, other_escape = (\<lambda>rest. CHR 0x5C # rest), pid = ''4242'',
      stdin = [], fault = None\<rparr>"

section \<open>Properties of the dispatcher\<close>

lemma poll_step:
  "\<not> is_terminal (get_command_invocation ssm cmd_id iid k) \<Longrightarrow>
   poll ssm cmd_id iid k (Suc n) =
     after (poll_events ssm cmd_id iid k) (poll ssm cmd_id iid (Suc k) n)"
  by (cases "get_command_invocation ssm cmd_id iid k")
     (simp_all add: poll_events_def is_terminal_def)

lemma poll_not_terminal:
  "\<forall>j<n. \<not> is_terminal (get_command_invocation ssm cmd_id iid (k + j)) \<Longrightarrow>
   poll ssm cmd_id iid k n =
     (timed_out iid, concat (map (poll_events ssm cmd_id iid) [k..<k + n]))"
proof (induction n arbitrary: k)
  case 0
  then show ?case by simp
next
  case (Suc n)
  from Suc.prems have now: "\<not> is_terminal (get_command_invocation ssm cmd_id iid k)"
    by (metis add.right_neutral zero_less_Suc)
  from Suc.prems
  have later: "\<forall>j<n. \<not> is_terminal (get_command_invocation ssm cmd_id iid (Suc k + j))"
    by (metis Suc_less_eq add_Suc_right add_Suc)
  have rest: "poll ssm cmd_id iid (Suc k) n =
     (timed_out iid, concat (map (poll_events ssm cmd_id iid) [Suc k..<Suc k + n]))"
    by (rule Suc.IH [OF later])
  have split: "[k..<k + Suc n] = k # [Suc k..<Suc k + n]"
    by (simp add: upt_conv_Cons)
  show ?case
    unfolding poll_step [OF now] rest split by (simp add: after_def)
qed

lemma slept_append: "slept (xs @ ys) = slept xs + slept ys"
  by (induction xs rule: slept.induct) simp_all

lemma polls_append: "polls (xs @ ys) = polls xs + polls ys"
  by (induction xs rule: polls.induct) simp_all

lemma polls_poll_events: "polls (concat (map (poll_events ssm c i) ks)) = length ks"
  by (induction ks) (simp_all add: polls_append poll_events_def)

lemma slept_poll_events:
  "slept (concat (map (poll_events ssm c i) ks)) =
     2 * length ks +
     length (filter (\<lambda>k. get_command_invocation ssm c i k = InvocationDoesNotExist) ks)"
  by (induction ks) (simp_all add: slept_append poll_events_def)

lemma poll_budget_le: "0 \<le> t \<Longrightarrow> 2 * int (nat (poll_budget t)) \<le> t"
  by (simp add: poll_budget_def)

lemma poll_budget_neg: "t < 0 \<Longrightarrow> nat (poll_budget t) = 0"
  by (simp add: poll_budget_def)

lemma send_ssm_command_not_terminal:
  assumes sent: "send_command ssm iid cmd t = Inr cmd_id"
    and pending: "\<forall>k<nat (poll_budget t). \<not> is_terminal (get_command_invocation ssm cmd_id iid k)"
  shows "send_ssm_command ssm iid cmd t =
           (timed_out iid,
            SendCommand iid cmd t #
            concat (map (poll_events ssm cmd_id iid) [0..<nat (poll_budget t)]))"
proof -
  from pending
  have "\<forall>j<nat (poll_budget t). \<not> is_terminal (get_command_invocation ssm cmd_id iid (0 + j))"
    by simp
  then have "poll ssm cmd_id iid 0 (nat (poll_budget t)) =
      (timed_out iid,
       concat (map (poll_events ssm cmd_id iid) [0..<0 + nat (poll_budget t)]))"
    by (rule poll_not_terminal)
  then show ?thesis
    by (simp add: send_ssm_command_def sent after_def)
qed

text \<open>
  C7. When the submission raises, the dispatcher returns the \<open>FailedToSend\<close> result for
  that instance, carrying the text of the exception and empty output, and the submission
  is the only call it has made: no sleep and no status poll.
\<close>

theorem send_failure_short_circuits:
  assumes "send_command ssm instance_id command timeout_seconds = Inl e"
  shows "send_ssm_command ssm instance_id command timeout_seconds =
           (\<lparr>instance = instance_id, status = ''FailedToSend'', error = Some e,
             stdout = [], stderr = []\<rparr>,
            [SendCommand instance_id command timeout_seconds])
         \<and> polls (snd (send_ssm_command ssm instance_id command timeout_seconds)) = 0
         \<and> slept (snd (send_ssm_command ssm instance_id command timeout_seconds)) = 0"
  using assms by (simp add: send_ssm_command_def failed_to_send_def)

theorem send_failure_short_circuits_witness:
  "send_ssm_command ssm_rejecting ''i-0abc'' ''uptime'' 300 =
     (\<lparr>instance = ''i-0abc'', status = ''FailedToSend'', error = Some ''AccessDenied'',
       stdout = [], stderr = []\<rparr>,
      [SendCommand ''i-0abc'' ''uptime'' 300])
   \<and> polls (snd (send_ssm_command ssm_rejecting ''i-0abc'' ''uptime'' 300)) = 0
   \<and> slept (snd (send_ssm_command ssm_rejecting ''i-0abc'' ''uptime'' 300)) = 0"
proof -
  have "send_command ssm_rejecting ''i-0abc'' ''uptime'' 300 = Inl ''AccessDenied''"
    by (simp add: ssm_rejecting_def)
  then show ?thesis by (rule send_failure_short_circuits)
qed

text \<open>
  C4, as the code has it. A dispatch whose submission succeeded and whose polls never see a
  terminal status returns \<open>TimedOut\<close> with empty output after exactly
  \<open>max 0 (int (timeout / 2))\<close> polls, each one after a sleep of 2. A poll that raises
  \<open>InvocationDoesNotExist\<close> is followed by one more sleep of 1, so the time slept is twice the
  number of polls plus the number of such polls: at most three times the number of polls
  (one and a half times the timeout), and within the timeout only when no poll raises
  \<open>InvocationDoesNotExist\<close>.
\<close>

theorem dispatch_timeout_bound:
  assumes "send_command ssm iid cmd t = Inr cmd_id"
    and "\<forall>k<nat (poll_budget t). \<not> is_terminal (get_command_invocation ssm cmd_id iid k)"
  shows "fst (send_ssm_command ssm iid cmd t) =
           \<lparr>instance = iid, status = ''TimedOut'', error = None, stdout = [], stderr = []\<rparr>
         \<and> snd (send_ssm_command ssm iid cmd t) =
             SendCommand iid cmd t #
             concat (map (poll_events ssm cmd_id iid) [0..<nat (poll_budget t)])
         \<and> polls (snd (send_ssm_command ssm iid cmd t)) = nat (poll_budget t)
         \<and> slept (snd (send_ssm_command ssm iid cmd t)) =
             2 * nat (poll_budget t) +
             length (filter (\<lambda>k. get_command_invocation ssm cmd_id iid k = InvocationDoesNotExist)
                       [0..<nat (poll_budget t)])
         \<and> slept (snd (send_ssm_command ssm iid cmd t)) \<le> 3 * nat (poll_budget t)
         \<and> 2 * int (slept (snd (send_ssm_command ssm iid cmd t))) \<le> 3 * max 0 t
         \<and> (filter (\<lambda>k. get_command_invocation ssm cmd_id iid k = InvocationDoesNotExist)
               [0..<nat (poll_budget t)] = []
             \<longrightarrow> int (slept (snd (send_ssm_command ssm iid cmd t))) \<le> max 0 t)"
proof -
  let ?n = "nat (poll_budget t)"
  let ?absent = "filter (\<lambda>k. get_command_invocation ssm cmd_id iid k = InvocationDoesNotExist) [0..<?n]"
  have run: "send_ssm_command ssm iid cmd t =
      (timed_out iid, SendCommand iid cmd t # concat (map (poll_events ssm cmd_id iid) [0..<?n]))"
    using assms by (rule send_ssm_command_not_terminal)
  have sl: "slept (snd (send_ssm_command ssm iid cmd t)) = 2 * ?n + length ?absent"
    by (simp add: run slept_poll_events)
  have "length ?absent \<le> length [0..<?n]"
    by (rule length_filter_le)
  then have le: "length ?absent \<le> ?n" by simp
  have budget: "2 * int ?n \<le> max 0 t"
  proof (cases "0 \<le> t")
    case True
    then have "2 * int ?n \<le> t" by (rule poll_budget_le)
    with True show ?thesis by simp
  next
    case False
    then have "?n = 0" by (simp add: poll_budget_neg)
    then show ?thesis by simp
  qed
  have c1: "fst (send_ssm_command ssm iid cmd t) =
      \<lparr>instance = iid, status = ''TimedOut'', error = None, stdout = [], stderr = []\<rparr>"
    by (simp add: run timed_out_def)
  have c2: "snd (send_ssm_command ssm iid cmd t) =
      SendCommand iid cmd t # concat (map (poll_events ssm cmd_id iid) [0..<?n])"
    by (simp add: run)
  have c3: "polls (snd (send_ssm_command ssm iid cmd t)) = ?n"
    by (simp add: run polls_poll_events)
  have c5: "slept (snd (send_ssm_command ssm iid cmd t)) \<le> 3 * ?n"
    using sl le by linarith
  have c6: "2 * int (slept (snd (send_ssm_command ssm iid cmd t))) \<le> 3 * max 0 t"
    using c5 budget by linarith
  have c7: "?absent = [] \<longrightarrow> int (slept (snd (send_ssm_command ssm iid cmd t))) \<le> max 0 t"
    using sl budget by auto
  from c1 c2 c3 sl c5 c6 c7 show ?thesis by blast
qed

text \<open>
  The same dispatch with the default timeout of 300 and an invocation that never becomes
  visible: 150 polls, 450 seconds slept.
\<close>

theorem dispatch_timeout_bound_witness:
  "fst (send_ssm_command ssm_never_visible ''i-0abc'' ''uptime'' 300) =
     \<lparr>instance = ''i-0abc'', status = ''TimedOut'', error = None, stdout = [], stderr = []\<rparr>
   \<and> polls (snd (send_ssm_command ssm_never_visible ''i-0abc'' ''uptime'' 300)) = 150
   \<and> slept (snd (send_ssm_command ssm_never_visible ''i-0abc'' ''uptime'' 300)) \<le> 450"
proof -
  have sent: "send_command ssm_never_visible ''i-0abc'' ''uptime'' 300 = Inr ''cmd-1''"
    by (simp add: ssm_never_visible_def)
  have pending: "\<forall>k<nat (poll_budget 300).
      \<not> is_terminal (get_command_invocation ssm_never_visible ''cmd-1'' ''i-0abc'' k)"
    by (simp add: ssm_never_visible_def is_terminal_def)
  have n: "nat (poll_budget 300) = 150"
    by (simp add: poll_budget_def)
  note run = dispatch_timeout_bound [OF sent pending]
  from run have r: "fst (send_ssm_command ssm_never_visible ''i-0abc'' ''uptime'' 300) =
      \<lparr>instance = ''i-0abc'', status = ''TimedOut'', error = None, stdout = [], stderr = []\<rparr>"
    by (rule conjunct1)
  from run have p: "polls (snd (send_ssm_command ssm_never_visible ''i-0abc'' ''uptime'' 300)) =
      nat (poll_budget 300)"
    by blast
  from run have s: "slept (snd (send_ssm_command ssm_never_visible ''i-0abc'' ''uptime'' 300)) \<le>
      3 * nat (poll_budget 300)"
    by blast
  from r p s show ?thesis
    unfolding n by simp
qed

text \<open>
  C4 as stated fails: with the default timeout of 300 and an invocation that stays
  invisible, the dispatch sleeps 450 seconds before it returns \<open>TimedOut\<close>, far beyond the
  timeout plus one poll interval (302).
\<close>

theorem dispatch_timeout_bound_counterexample:
  "status (fst (send_ssm_command ssm_never_visible ''i-0abc'' ''uptime'' 300)) = ''TimedOut''
   \<and> slept (snd (send_ssm_command ssm_never_visible ''i-0abc'' ''uptime'' 300)) = 450
   \<and> \<not> slept (snd (send_ssm_command ssm_never_visible ''i-0abc'' ''uptime'' 300)) \<le> 300 + 2"
  by (simp add: send_ssm_command_def ssm_never_visible_def poll_budget_def after_def
      timed_out_def eval_nat_numeral)

text \<open>
  C10, as the code has it. For a timeout below 2 the poll budget \<open>int(timeout / 2)\<close> is zero
  or negative (zero exactly from -1 to 1), \<open>range\<close> of it is empty, and a dispatch whose
  submission succeeded returns \<open>TimedOut\<close> with empty output without a single sleep or
  poll, whatever the remote command did.
\<close>

theorem small_timeout_never_polls:
  assumes "timeout_seconds < 2"
    and "send_command ssm instance_id command timeout_seconds = Inr cmd_id"
  shows "poll_budget timeout_seconds \<le> 0
         \<and> (poll_budget timeout_seconds = 0) = (- 2 < timeout_seconds)
         \<and> send_ssm_command ssm instance_id command timeout_seconds =
             (\<lparr>instance = instance_id, status = ''TimedOut'', error = None,
               stdout = [], stderr = []\<rparr>,
              [SendCommand instance_id command timeout_seconds])
         \<and> polls (snd (send_ssm_command ssm instance_id command timeout_seconds)) = 0"
proof -
  have b: "poll_budget timeout_seconds \<le> 0"
    using assms(1) by (simp add: poll_budget_def)
  have z: "(poll_budget timeout_seconds = 0) = (- 2 < timeout_seconds)"
    using assms(1) by (auto simp add: poll_budget_def)
  have n: "nat (poll_budget timeout_seconds) = 0"
    using b by simp
  have run: "send_ssm_command ssm instance_id command timeout_seconds =
      (\<lparr>instance = instance_id, status = ''TimedOut'', error = None, stdout = [], stderr = []\<rparr>,
       [SendCommand instance_id command timeout_seconds])"
    by (simp add: send_ssm_command_def assms(2) n after_def timed_out_def)
  from b z run show ?thesis by simp
qed

text \<open>A command that has succeeded by the first poll is still reported \<open>TimedOut\<close> when the
  timeout is 1.\<close>

theorem small_timeout_never_polls_witness:
  "poll_budget 1 = 0
   \<and> send_ssm_command ssm_immediate ''i-0abc'' ''uptime'' 1 =
       (\<lparr>instance = ''i-0abc'', status = ''TimedOut'', error = None, stdout = [], stderr = []\<rparr>,
        [SendCommand ''i-0abc'' ''uptime'' 1])
   \<and> polls (snd (send_ssm_command ssm_immediate ''i-0abc'' ''uptime'' 1)) = 0"
proof -
  have small: "(1::int) < 2" by simp
  have sent: "send_command ssm_immediate ''i-0abc'' ''uptime'' 1 = Inr ''cmd-1''"
    by (simp add: ssm_immediate_def)
  from small_timeout_never_polls [OF small sent] show ?thesis by simp
qed

text \<open>C10 as stated fails at a timeout of -2: \<open>int(-2 / 2)\<close> is -1, not zero.\<close>

theorem small_timeout_budget_counterexample:
  "(- 2 :: int) < 2 \<and> poll_budget (- 2) = - 1 \<and> poll_budget (- 2) \<noteq> 0"
  by (simp add: poll_budget_def)

section \<open>Properties of the resolver\<close>

lemma fold_dedupe_step:
  "fold dedupe_step xs (result, seen) = (result @ keep_first seen xs, seen \<union> set xs)"
  by (induction xs arbitrary: result seen) (auto simp add: dedupe_step_def)

lemma set_keep_first: "set (keep_first seen xs) = set xs - seen"
  by (induction xs arbitrary: seen) auto

lemma distinct_keep_first: "distinct (keep_first seen xs)"
  by (induction xs arbitrary: seen) (auto simp add: set_keep_first)

lemma first_index_Cons:
  "first_index (a # xs) x = (if x = a then 0 else Suc (first_index xs x))"
  by (auto simp add: first_index_def)

lemma sorted_keep_first:
  "sorted_wrt (\<lambda>x y. first_index xs x < first_index xs y) (keep_first seen xs)"
proof (induction xs arbitrary: seen)
  case Nil
  then show ?case by simp
next
  case (Cons a xs)
  have shift: "sorted_wrt (\<lambda>x y. first_index (a # xs) x < first_index (a # xs) y)
      (keep_first s xs)" if "a \<in> s" for s
  proof (rule sorted_wrt_mono_rel [OF _ Cons.IH [of s]])
    fix x y
    assume "x \<in> set (keep_first s xs)" "y \<in> set (keep_first s xs)"
      and lt: "first_index xs x < first_index xs y"
    then have "x \<noteq> a" "y \<noteq> a" using that by (auto simp add: set_keep_first)
    with lt show "first_index (a # xs) x < first_index (a # xs) y"
      by (simp add: first_index_Cons)
  qed
  show ?case
  proof (cases "a \<in> seen")
    case True
    then show ?thesis using shift [of seen] by simp
  next
    case False
    have "\<forall>y\<in>set (keep_first (insert a seen) xs).
        first_index (a # xs) a < first_index (a # xs) y"
      by (auto simp add: set_keep_first first_index_Cons)
    with False shift [of "insert a seen"] show ?thesis by simp
  qed
qed

lemma resolve_instances_keep_first:
  "fst (resolve_instances ec2 raw_list) = keep_first {} (resolved_before_dedupe ec2 raw_list)"
  by (simp add: resolve_instances_def resolved_before_dedupe_def fold_dedupe_step
      split: prod.split)

text \<open>
  C5. Whatever the tokens and the inventory, the list returned holds no identifier twice,
  holds exactly the identifiers the tokens produced, and holds them in the order of their
  first occurrences among the identifiers produced.
\<close>

theorem resolve_instances_dedup:
  "distinct (fst (resolve_instances ec2 raw_list))
   \<and> set (fst (resolve_instances ec2 raw_list)) = set (resolved_before_dedupe ec2 raw_list)
   \<and> sorted_wrt
        (\<lambda>x y. first_index (resolved_before_dedupe ec2 raw_list) x
                < first_index (resolved_before_dedupe ec2 raw_list) y)
        (fst (resolve_instances ec2 raw_list))"
  unfolding resolve_instances_keep_first
  by (simp add: distinct_keep_first set_keep_first sorted_keep_first)

text \<open>The example of the specification: the tokens \<open>i-111\<close>, \<open>web\<close>, \<open>i-111\<close>, where the tag
  \<open>web\<close> names \<open>i-222\<close>.\<close>

lemma resolve_instances_example:
  "resolved_before_dedupe ec2_web [''i-111'', ''web'', ''i-111''] = [''i-111'', ''i-222'', ''i-111'']
   \<and> fst (resolve_instances ec2_web [''i-111'', ''web'', ''i-111'']) = [''i-111'', ''i-222'']"
  by (simp add: resolve_instances_def resolved_before_dedupe_def resolve_item_def strip_def
      py_isspace_def matches_instance_id_def is_hex_digit_def ec2_web_def dedupe_step_def)

theorem resolve_instances_dedup_witness:
  "distinct (fst (resolve_instances ec2_web [''i-111'', ''web'', ''i-111'']))
   \<and> set (fst (resolve_instances ec2_web [''i-111'', ''web'', ''i-111''])) = {''i-111'', ''i-222''}"
  using resolve_instances_dedup [of ec2_web "[''i-111'', ''web'', ''i-111'']"]
  by (simp add: resolve_instances_example)

section \<open>Properties of the execution engine\<close>

lemma mset_as_completed: "mset (as_completed sched k fs) = mset fs"
proof (induction sched k fs rule: as_completed.induct)
  case (1 sched k)
  then show ?case by simp
next
  case (2 sched k f fs)
  let ?xs = "f # fs"
  let ?i = "sched k mod length ?xs"
  have i: "?i < length ?xs" by simp
  have "mset ?xs = mset (take ?i ?xs @ ?xs ! ?i # drop (Suc ?i) ?xs)"
    using id_take_nth_drop [OF i] by simp
  also have "\<dots> = add_mset (?xs ! ?i) (mset (take ?i ?xs @ drop (Suc ?i) ?xs))"
    by simp
  finally have split: "mset ?xs = add_mset (?xs ! ?i) (mset (take ?i ?xs @ drop (Suc ?i) ?xs))" .
  have "mset (as_completed sched k ?xs) =
      add_mset (?xs ! ?i) (mset (as_completed sched (Suc k) (take ?i ?xs @ drop (Suc ?i) ?xs)))"
    by (simp add: Let_def)
  also have "\<dots> = add_mset (?xs ! ?i) (mset (take ?i ?xs @ drop (Suc ?i) ?xs))"
    using "2.IH" [of ?i] by simp
  finally show ?case using split by simp
qed

lemma as_completed_map:
  "as_completed sched k (map g xs) = map g (as_completed sched k xs)"
proof (induction sched k xs rule: as_completed.induct)
  case (1 sched k)
  then show ?case by simp
next
  case (2 sched k f fs)
  let ?i = "sched k mod length (f # fs)"
  have i: "?i < length (f # fs)" by simp
  have len: "length (map g (f # fs)) = length (f # fs)" by simp
  have "as_completed sched k (map g (f # fs)) =
      map g (f # fs) ! ?i #
      as_completed sched (Suc k) (take ?i (map g (f # fs)) @ drop (Suc ?i) (map g (f # fs)))"
    by (simp add: Let_def)
  also have "map g (f # fs) ! ?i = g ((f # fs) ! ?i)"
    using i by (rule nth_map)
  also have "take ?i (map g (f # fs)) @ drop (Suc ?i) (map g (f # fs)) =
      map g (take ?i (f # fs) @ drop (Suc ?i) (f # fs))"
    by (simp only: take_map drop_map map_append)
  also have "as_completed sched (Suc k) (map g (take ?i (f # fs) @ drop (Suc ?i) (f # fs))) =
      map g (as_completed sched (Suc k) (take ?i (f # fs) @ drop (Suc ?i) (f # fs)))"
    by (rule "2.IH" [OF refl])
  finally show ?case by (simp add: Let_def)
qed

lemma set_as_completed: "set (as_completed sched k fs) = set fs"
  using mset_as_completed [of sched k fs] by (metis set_mset_mset)

lemma log_all_none:
  "\<forall>m\<in>set ms. \<forall>n. env n m = None \<Longrightarrow> log_all env n ms = None"
  by (induction ms arbitrary: n) simp_all

lemma collect_results:
  "\<forall>r\<in>set rs. \<forall>m\<in>set (log_result r). \<forall>n. env n m = None \<Longrightarrow>
   collect env (map Inr rs) results logged =
     Inr (results @ rs, logged @ concat (map log_result rs))"
proof (induction rs arbitrary: results logged)
  case Nil
  show ?case by simp
next
  case (Cons r rs)
  from Cons.prems have quiet: "\<forall>m\<in>set (log_result r). \<forall>n. env n m = None" by simp
  from Cons.prems have rest: "\<forall>r\<in>set rs. \<forall>m\<in>set (log_result r). \<forall>n. env n m = None"
    by simp
  have "collect env (map Inr (r # rs)) results logged =
      collect env (map Inr rs) (results @ [r]) (logged @ log_result r)"
    by (simp add: log_all_none [OF quiet])
  also have "\<dots> = Inr ((results @ [r]) @ rs, (logged @ log_result r) @ concat (map log_result rs))"
    by (rule Cons.IH [OF rest])
  finally show ?case by simp
qed

lemma futures_own_result:
  assumes "\<forall>k<length instance_ids. session k = Inr (world k)"
  shows "map (\<lambda>(k, iid). future_result (session k) iid command) (enumerate 0 instance_ids) =
         map Inr (map (own_result world instance_ids command) [0..<length instance_ids])"
  using assms
  by (intro nth_equalityI) (simp_all add: nth_enumerate_eq own_result_def future_result_def)

text \<open>When the pool exists, every task has its client and no call of \<open>log\<close> raises, the
  engine returns the results of all tasks in the order of completion.\<close>

lemma run_parallel_results:
  assumes pos: "0 < concurrency"
    and clients: "\<forall>k<length instance_ids. session k = Inr (world k)"
    and quiet: "\<forall>k<length instance_ids.
        \<forall>m\<in>set (log_result (own_result world instance_ids command k)). \<forall>n. env n m = None"
  shows "run_parallel env session sched instance_ids command concurrency =
           Inr (as_completed sched 0
                  (map (own_result world instance_ids command) [0..<length instance_ids]),
                concat (map log_result
                  (as_completed sched 0
                     (map (own_result world instance_ids command) [0..<length instance_ids]))))"
proof -
  let ?own = "map (own_result world instance_ids command) [0..<length instance_ids]"
  have "\<forall>r\<in>set ?own. \<forall>m\<in>set (log_result r). \<forall>n. env n m = None"
    using quiet by auto
  then have all: "\<forall>r\<in>set (as_completed sched 0 ?own). \<forall>m\<in>set (log_result r). \<forall>n. env n m = None"
    by (simp only: set_as_completed)
  have "run_parallel env session sched instance_ids command concurrency =
      collect env (as_completed sched 0 (map Inr ?own)) [] []"
    using pos by (simp add: run_parallel_def futures_own_result [OF clients])
  also have "\<dots> = collect env (map Inr (as_completed sched 0 ?own)) [] []"
    by (simp only: as_completed_map)
  also have "\<dots> = Inr ([] @ as_completed sched 0 ?own,
      [] @ concat (map log_result (as_completed sched 0 ?own)))"
    by (rule collect_results [OF all])
  finally show ?thesis by simp
qed

lemma instance_send_ssm_command:
  "instance (fst (send_ssm_command ssm iid command t)) = iid"
proof -
  have "instance (fst (poll ssm cmd_id iid k n)) = iid" for cmd_id k n
    by (induction n arbitrary: k)
       (simp_all add: timed_out_def after_def split: poll_response.split)
  then show ?thesis
    by (simp add: send_ssm_command_def failed_to_send_def after_def split: sum.split)
qed

lemma map_instance_own_result:
  "map instance (map (own_result world instance_ids command) [0..<length instance_ids]) =
   instance_ids"
  by (rule nth_equalityI) (simp_all add: own_result_def instance_send_ssm_command)



lemma poll_first_terminal:
  assumes "get_command_invocation ssm cmd_id iid k = Invocation st out err"
    and "st \<in> set terminal_statuses" and "0 < n"
  shows "poll ssm cmd_id iid k n =
           (\<lparr>instance = iid, status = st, error = None, stdout = out, stderr = err\<rparr>,
            [Sleep 2, GetCommandInvocation cmd_id iid])"
  using assms by (cases n) simp_all

lemma immediate_result:
  "fst (send_ssm_command ssm_immediate iid command 300) =
     \<lparr>instance = iid, status = ''Success'', error = None, stdout = ''done'', stderr = []\<rparr>"
proof -
  have g: "get_command_invocation ssm_immediate ''cmd-1'' iid 0 = Invocation ''Success'' ''done'' []"
    by (simp add: ssm_immediate_def)
  have t: "''Success'' \<in> set terminal_statuses"
    by (simp add: terminal_statuses_def)
  have n: "0 < nat (poll_budget 300)"
    by (simp add: poll_budget_def)
  have s: "send_command ssm_immediate iid command 300 = Inr ''cmd-1''"
    by (simp add: ssm_immediate_def)
  show ?thesis
    by (simp add: send_ssm_command_def s poll_first_terminal [OF g t n] after_def)
qed

lemma rejecting_result:
  "fst (send_ssm_command ssm_rejecting iid command 300) =
     \<lparr>instance = iid, status = ''FailedToSend'', error = Some ''AccessDenied'',
       stdout = [], stderr = []\<rparr>"
  by (simp add: send_ssm_command_def ssm_rejecting_def failed_to_send_def)







lemma as_completed_five:
  "as_completed (\<lambda>k. 3 * k + 1) 0 [0, 1, 2, 3, 4 :: nat] = [1, 0, 3, 2, 4]"
  by code_simp


lemma failing_result:
  "fst (send_ssm_command ssm_failing iid command 300) =
     \<lparr>instance = iid, status = ''Failed'', error = None, stdout = [],
       stderr = ''[/etc/app.conf] not found''\<rparr>"
proof -
  have g: "get_command_invocation ssm_failing ''cmd-2'' iid 0 =
      Invocation ''Failed'' [] ''[/etc/app.conf] not found''"
    by (simp add: ssm_failing_def)
  have t: "''Failed'' \<in> set terminal_statuses"
    by (simp add: terminal_statuses_def)
  have n: "0 < nat (poll_budget 300)"
    by (simp add: poll_budget_def)
  have s: "send_command ssm_failing iid command 300 = Inr ''cmd-2''"
    by (simp add: ssm_failing_def)
  show ?thesis
    by (simp add: send_ssm_command_def s poll_first_terminal [OF g t n] after_def)
qed

text \<open>What the console does with the messages of the concrete runs: the instance id between
  brackets opens a tag that is never closed, which is no error; the path between brackets
  is a closing tag that matches no open tag.\<close>

lemma console_success: "console n ''[i-0a] SUCCESS'' = None"
  "console n ''[i-0b] SUCCESS'' = None" "console n ''[i-0d] SUCCESS'' = None"
  "console n ''[i-0e] SUCCESS'' = None"
  by (simp_all add: console_def rich_console_def tag_start_def tag_of_def)

lemma console_stdout: "console n ''[i-0a] STDOUT:\<newline>done'' = None"
  "console n ''[i-0b] STDOUT:\<newline>done'' = None"
  "console n ''[i-0d] STDOUT:\<newline>done'' = None"
  "console n ''[i-0e] STDOUT:\<newline>done'' = None"
  by (simp_all add: console_def rich_console_def tag_start_def tag_of_def)

lemma console_failed_to_send:
  "console n ''[i-0c] STATUS=FailedToSend; STDERR:\<newline>'' = None"
  by (simp add: console_def rich_console_def tag_start_def tag_of_def)

lemma console_closing_tag:
  "console n ''[i-0b] STATUS=Failed; STDERR:\<newline>[/etc/app.conf] not found'' =
     Some (MarkupError ''[/etc/app.conf]'')"
  by (simp add: console_def rich_console_def tag_start_def tag_of_def pop_tag_def strip_def
      py_isspace_def)

lemma less_five: "k < 5 \<Longrightarrow> k = 0 \<or> k = 1 \<or> k = 2 \<or> k = 3 \<or> k = (4::nat)"
  by arith

lemma batch_of_five_quiet:
  "\<forall>k<length batch_of_five.
     \<forall>m\<in>set (log_result (own_result world_one_rejecting batch_of_five ''uptime'' k)).
       \<forall>n. console n m = None"
proof (intro allI impI)
  fix k
  assume "k < length batch_of_five"
  then have "k < 5" by (simp add: batch_of_five_def)
  then have "k = 0 \<or> k = 1 \<or> k = 2 \<or> k = 3 \<or> k = 4" by (rule less_five)
  then show "\<forall>m\<in>set (log_result (own_result world_one_rejecting batch_of_five ''uptime'' k)).
       \<forall>n. console n m = None"
    by (elim disjE)
       (simp_all add: own_result_def world_one_rejecting_def batch_of_five_def immediate_result
          rejecting_result log_result_def console_success console_stdout
          console_failed_to_send)
qed

lemma batch_of_five_clients:
  "\<forall>k<length batch_of_five. (\<lambda>k. Inr (world_one_rejecting k)) k = Inr (world_one_rejecting k)"
  by simp

text \<open>
  C1, as the code has it. For every list of instance ids, every command, every behaviour of
  the service and every completion order: when the concurrency is at least 1, every task
  obtains its client and no call of \<open>log\<close> raises on the messages of the results,
  \<open>run_parallel\<close> returns, and returns as many results as there are ids; the instance fields
  of the results are the input ids, each as often as it occurs in the input (a permutation
  of the input).
\<close>

theorem run_parallel_cardinality:
  assumes "0 < concurrency"
    and "\<forall>k<length instance_ids. session k = Inr (world k)"
    and "\<forall>k<length instance_ids.
        \<forall>m\<in>set (log_result (own_result world instance_ids command k)). \<forall>n. env n m = None"
  shows "\<exists>results logged.
           run_parallel env session sched instance_ids command concurrency = Inr (results, logged)
           \<and> length results = length instance_ids
           \<and> mset (map instance results) = mset instance_ids"
proof -
  let ?results = "as_completed sched 0
      (map (own_result world instance_ids command) [0..<length instance_ids])"
  note run = run_parallel_results [OF assms, of sched]
  have own: "mset ?results =
      mset (map (own_result world instance_ids command) [0..<length instance_ids])"
    by (rule mset_as_completed)
  from own have "size (mset ?results) =
      size (mset (map (own_result world instance_ids command) [0..<length instance_ids]))"
    by (rule arg_cong)
  then have len: "length ?results = length instance_ids" by simp
  from own have "mset (map instance ?results) =
      mset (map instance (map (own_result world instance_ids command) [0..<length instance_ids]))"
    by (simp only: mset_map)
  then have ids: "mset (map instance ?results) = mset instance_ids"
    by (simp only: map_instance_own_result)
  from run len ids show ?thesis by blast
qed

theorem run_parallel_cardinality_witness:
  "(0::int) < 8 \<and>
   (\<exists>results logged.
      run_parallel console (\<lambda>k. Inr (world_one_rejecting k)) (\<lambda>k. 3 * k + 1) batch_of_five
        ''uptime'' 8 = Inr (results, logged)
      \<and> length results = 5
      \<and> mset (map instance results) = mset [''i-0a'', ''i-0b'', ''i-0c'', ''i-0d'', ''i-0e''])"
proof -
  have pos: "(0::int) < 8" by simp
  have len: "length batch_of_five = 5" by (simp add: batch_of_five_def)
  from run_parallel_cardinality [OF pos batch_of_five_clients batch_of_five_quiet,
      of "\<lambda>k. 3 * k + 1"]
  show ?thesis unfolding len unfolding batch_of_five_def using pos by blast
qed

text \<open>
  C1 as stated fails in three ways. With a concurrency of 0 the thread pool refuses to
  start and \<open>run_parallel\<close> raises \<open>ValueError\<close>. With a concurrency of 8, when the command
  of the second of two instances fails and its standard error holds a path between
  brackets, \<open>log\<close> raises \<open>MarkupError\<close> on it and \<open>run_parallel\<close> raises; and when the
  second task cannot create its client, its exception leaves \<open>run_parallel\<close>. In each case
  no result at all is returned.
\<close>

theorem run_parallel_cardinality_counterexample:
  "run_parallel console (\<lambda>k. Inr (world_one_rejecting k)) (\<lambda>k. 3 * k + 1) batch_of_five
     ''uptime'' 0 = Inl (ValueError ''max_workers must be greater than 0'')
   \<and> run_parallel console (\<lambda>k. Inr (world_one_failing k)) (\<lambda>k. 0) [''i-0a'', ''i-0b'']
       ''systemctl start app'' 8 = Inl (MarkupError ''[/etc/app.conf]'')
   \<and> run_parallel console
       (\<lambda>k. if k = 1 then Inl (SessionError ''NoRegionError'') else Inr ssm_immediate)
       (\<lambda>k. 0) [''i-0a'', ''i-0b''] ''uptime'' 8 = Inl (SessionError ''NoRegionError'')"
  by (simp add: run_parallel_def enumerate_eq_zip upt_rec future_result_def
      world_one_failing_def immediate_result failing_result log_result_def
      console_success console_stdout console_closing_tag)




section \<open>Properties of the patch generator\<close>

subsection \<open>Quoting of the command\<close>

lemma sh_scan_single_quoted:
  "sh_scan SingleQuoted (escape_quotes s @ CHR 0x27 # rest) =
     (case sh_scan Unquoted rest of None \<Rightarrow> None | Some ys \<Rightarrow> Some (map Literal s @ ys))"
proof (induction s)
  case Nil
  show ?case by (simp add: escape_quotes_def split: option.split)
next
  case (Cons c s)
  have unfold: "escape_quotes (c # s) =
      (if c = CHR 0x27 then [CHR 0x27, CHR 0x22, CHR 0x27, CHR 0x22, CHR 0x27] else [c])
      @ escape_quotes s"
    by (simp add: escape_quotes_def)
  show ?case
    unfolding unfold by (simp add: Cons.IH scanned_def split: option.split)
qed

lemma quotedI:
  assumes "sh_scan Unquoted rest = Some ys"
  shows "sh_scan Unquoted ([CHR 0x27] @ escape_quotes s @ [CHR 0x27] @ rest) =
           Some (map Literal s @ ys)"
  using assms by (simp add: sh_scan_single_quoted)

lemma plainI:
  assumes "list_all no_quoting s" and "sh_scan Unquoted rest = Some ys"
  shows "sh_scan Unquoted (s @ rest) = Some (map Plain s @ ys)"
  using assms by (induction s) (simp_all add: no_quoting_def scanned_def)

lemma shlex_safe_no_quoting: "shlex_safe c \<Longrightarrow> no_quoting c"
  by (auto simp add: shlex_safe_def no_quoting_def)

lemma pathI:
  assumes "sh_scan Unquoted rest = Some ys"
  shows "sh_scan Unquoted (shlex_quote f @ rest) = Some (scanned_path f @ ys)"
proof (cases "f = []")
  case True
  with assms show ?thesis by (simp add: shlex_quote_def scanned_path_def)
next
  case False
  show ?thesis
  proof (cases "list_all shlex_safe f")
    case True
    then have "list_all no_quoting f"
      by (simp add: list_all_iff shlex_safe_no_quoting)
    from plainI [OF this assms] True False show ?thesis
      by (simp add: shlex_quote_def scanned_path_def)
  next
    case unsafe: False
    from quotedI [OF assms, of f] unsafe False show ?thesis
      by (simp add: shlex_quote_def scanned_path_def)
  qed
qed

lemma escape_quotes_id: "CHR 0x27 \<notin> set s \<Longrightarrow> escape_quotes s = s"
  by (induction s) (auto simp add: escape_quotes_def)

lemma awk_program_text_no_quote: "CHR 0x27 \<notin> set awk_program_text"
  by (simp add: awk_program_text_def)

lemma plain_awk: "list_all no_quoting ''awk -v pattern=''"
  by (simp add: no_quoting_def)

lemma plain_new_line: "list_all no_quoting '' -v new_line=''"
  by (simp add: no_quoting_def)

lemma plain_space: "list_all no_quoting '' ''"
  by (simp add: no_quoting_def)

lemma plain_tail: "list_all no_quoting '' > /tmp/tm_cli_tmp.$$ && mv /tmp/tm_cli_tmp.$$ ''"
  by (simp add: no_quoting_def)

text \<open>
  C3. For every pattern, every inserted line and every file path, the shell reads the
  command as: the plain text \<open>awk -v pattern=\<close>, the pattern with every character literal,
  the plain text \<open>-v new_line=\<close>, the inserted line with every character literal, the awk
  program with every character literal, the file path, and the redirection and \<open>mv\<close> that
  follow, which are the same for all patterns and inserted lines. No character of the
  pattern or of the inserted line is left for the shell to interpret, and no quote is left
  open (the scan is not \<open>None\<close>).
\<close>

theorem awk_script_quoting:
  "sh_scan Unquoted (awk_script filepath match_pattern new_line) =
     Some (map Plain ''awk -v pattern='' @ map Literal match_pattern @
           map Plain '' -v new_line='' @ map Literal new_line @
           map Plain '' '' @ map Literal awk_program_text @ map Plain '' '' @
           scanned_path filepath @
           map Plain '' > /tmp/tm_cli_tmp.$$ && mv /tmp/tm_cli_tmp.$$ '' @
           scanned_path filepath)"
proof -
  have e0: "sh_scan Unquoted [] = Some []" by simp
  note e1 = pathI [OF e0, of filepath, unfolded append_Nil2]
  note e2 = plainI [OF plain_tail e1]
  note e3 = pathI [OF e2, of filepath]
  note e4 = plainI [OF plain_space e3]
  note e5 = quotedI [OF e4, of awk_program_text,
      unfolded escape_quotes_id [OF awk_program_text_no_quote]]
  note e6 = plainI [OF plain_space e5]
  note e7 = quotedI [OF e6, of new_line]
  note e8 = plainI [OF plain_new_line e7]
  note e9 = quotedI [OF e8, of match_pattern]
  note e10 = plainI [OF plain_awk e9]
  show ?thesis unfolding awk_script_def by (rule e10)
qed

text \<open>A pattern that tries to close the quote and run another command, an inserted line
  with quotes of its own and a path with a blank.\<close>

theorem awk_script_quoting_witness:
  "sh_scan Unquoted (awk_script ''/opt/my app/main.py'' ''it's; rm -rf /'' ''print('hi')'') =
     Some (map Plain ''awk -v pattern='' @ map Literal ''it's; rm -rf /'' @
           map Plain '' -v new_line='' @ map Literal ''print('hi')'' @
           map Plain '' '' @ map Literal awk_program_text @ map Plain '' '' @
           map Literal ''/opt/my app/main.py'' @
           map Plain '' > /tmp/tm_cli_tmp.$$ && mv /tmp/tm_cli_tmp.$$ '' @
           map Literal ''/opt/my app/main.py'')"
proof -
  have p: "scanned_path ''/opt/my app/main.py'' = map Literal ''/opt/my app/main.py''"
    by (simp add: scanned_path_def shlex_safe_def)
  show ?thesis
    using awk_script_quoting [of "''/opt/my app/main.py''" "''it's; rm -rf /''" "''print('hi')''"]
    unfolding p .
qed

subsection \<open>The awk program\<close>









subsection \<open>The command as the shell reads and runs it\<close>

lemma shlex_safe_plain:
  "shlex_safe c \<Longrightarrow> c \<noteq> CHR '' '' \<and> c \<noteq> CHR ''>'' \<and> c \<noteq> CHR ''&'' \<and> c \<noteq> CHR ''$''"
  by (auto simp add: shlex_safe_def)

lemma sh_tokens_literal:
  "sh_tokens p acc cur (map Literal s @ rest) = sh_tokens p acc (cur @ s) rest"
  by (induction s arbitrary: cur) simp_all

lemma sh_tokens_safe:
  "list_all shlex_safe s \<Longrightarrow>
   sh_tokens p acc cur (map Plain s @ rest) = sh_tokens p acc (cur @ s) rest"
proof (induction s arbitrary: cur)
  case Nil
  show ?case by simp
next
  case (Cons c s)
  then have safe: "shlex_safe c" and rest: "list_all shlex_safe s" by simp_all
  from shlex_safe_plain [OF safe] safe
  have "sh_tokens p acc cur (Plain c # (map Plain s @ rest)) =
      sh_tokens p acc (cur @ [c]) (map Plain s @ rest)"
    by simp
  with Cons.IH [OF rest, of "cur @ [c]"] show ?case by simp
qed

lemma sh_tokens_path:
  "sh_tokens p acc cur (scanned_path f @ rest) = sh_tokens p acc (cur @ f) rest"
  by (simp add: scanned_path_def sh_tokens_literal sh_tokens_safe)

lemma seg_awk:
  "sh_tokens p [] [] (map Plain ''awk -v pattern='' @ rest) =
     sh_tokens p [Word ''awk'', Word ''-v''] ''pattern='' rest"
  by (simp add: flush_def shlex_safe_def)

lemma seg_new_line:
  "cur \<noteq> [] \<Longrightarrow>
   sh_tokens p acc cur (map Plain '' -v new_line='' @ rest) =
     sh_tokens p (acc @ [Word cur, Word ''-v'']) ''new_line='' rest"
  by (simp add: flush_def shlex_safe_def)

lemma seg_space:
  "sh_tokens p acc cur (map Plain '' '' @ rest) = sh_tokens p (acc @ flush cur) [] rest"
  by simp

lemma seg_tail:
  "sh_tokens p acc cur
     (map Plain '' > /tmp/tm_cli_tmp.$$ && mv /tmp/tm_cli_tmp.$$ '' @ rest) =
   sh_tokens p
     (acc @ flush cur @
      [Great, Word (''/tmp/tm_cli_tmp.'' @ p), AndIf, Word ''mv'', Word (''/tmp/tm_cli_tmp.'' @ p)])
     [] rest"
  by (simp add: flush_def shlex_safe_def)


lemma sh_scan_awk_script:
  "sh_scan Unquoted (awk_script filepath match_pattern new_line) =
     Some (map Plain ''awk -v pattern='' @ (map Literal match_pattern @
           (map Plain '' -v new_line='' @ (map Literal new_line @
           (map Plain '' '' @ (map Literal awk_program_text @ (map Plain '' '' @
           (scanned_path filepath @
           (map Plain '' > /tmp/tm_cli_tmp.$$ && mv /tmp/tm_cli_tmp.$$ '' @
           (scanned_path filepath @ []))))))))))"
proof -
  have e0: "sh_scan Unquoted [] = Some []" by simp
  note e1 = pathI [OF e0, of filepath]
  note e2 = plainI [OF plain_tail e1]
  note e3 = pathI [OF e2, of filepath]
  note e4 = plainI [OF plain_space e3]
  note e5 = quotedI [OF e4, of awk_program_text,
      unfolded escape_quotes_id [OF awk_program_text_no_quote]]
  note e6 = plainI [OF plain_space e5]
  note e7 = quotedI [OF e6, of new_line]
  note e8 = plainI [OF plain_new_line e7]
  note e9 = quotedI [OF e8, of match_pattern]
  note e10 = plainI [OF plain_awk e9]
  have "awk_script filepath match_pattern new_line =
      ''awk -v pattern='' @ [CHR 0x27] @ escape_quotes match_pattern @ [CHR 0x27] @
      '' -v new_line='' @ [CHR 0x27] @ escape_quotes new_line @ [CHR 0x27] @
      '' '' @ [CHR 0x27] @ awk_program_text @ [CHR 0x27] @ '' '' @
      shlex_quote filepath @ '' > /tmp/tm_cli_tmp.$$ && mv /tmp/tm_cli_tmp.$$ '' @
      shlex_quote filepath @ []"
    by (simp add: awk_script_def)
  then show ?thesis by (simp only: e10)
qed

lemma awk_program_text_word:
  "awk_program_text \<noteq> []" "take (Suc 0) awk_program_text \<noteq> ''-''"
  "awk_program_text \<noteq> ''-v''"
  by (simp_all add: awk_program_text_def)

text \<open>The tokens of the command, for every pattern, inserted line and path.\<close>

lemma sh_tokens_awk_script:
  "sh_tokens p [] []
     (map Plain ''awk -v pattern='' @ (map Literal match_pattern @
      (map Plain '' -v new_line='' @ (map Literal new_line @
      (map Plain '' '' @ (map Literal awk_program_text @ (map Plain '' '' @
      (scanned_path filepath @
      (map Plain '' > /tmp/tm_cli_tmp.$$ && mv /tmp/tm_cli_tmp.$$ '' @
      (scanned_path filepath @ [])))))))))) =
   Some ([Word ''awk'', Word ''-v'', Word (''pattern='' @ match_pattern), Word ''-v'',
          Word (''new_line='' @ new_line), Word awk_program_text] @ flush filepath @
         [Great, Word (''/tmp/tm_cli_tmp.'' @ p), AndIf, Word ''mv'',
          Word (''/tmp/tm_cli_tmp.'' @ p)] @ flush filepath)"
proof -
  have c1: "''pattern='' @ match_pattern \<noteq> []" by simp
  have c2: "''new_line='' @ new_line \<noteq> []" by simp
  show ?thesis
    unfolding seg_awk sh_tokens_literal seg_new_line [OF c1] seg_space seg_tail sh_tokens_path
    by (simp add: flush_def awk_program_text_word)
qed


text \<open>The two commands the shell runs, for a path that is not empty.\<close>

lemma run_patch_script_commands:
  assumes "filepath \<noteq> []"
  shows "run_patch_script env fs filepath match_pattern new_line =
     sh_and_list env fs
       [([''awk'', ''-v'', ''pattern='' @ match_pattern, ''-v'', ''new_line='' @ new_line,
          awk_program_text, filepath], Some (tmp_path env)),
        ([''mv'', tmp_path env, filepath], None)]"
proof -
  let ?tokens = "[Word ''awk'', Word ''-v'', Word (''pattern='' @ match_pattern), Word ''-v'',
      Word (''new_line='' @ new_line), Word awk_program_text] @ flush filepath @
      [Great, Word (''/tmp/tm_cli_tmp.'' @ pid env), AndIf, Word ''mv'',
       Word (''/tmp/tm_cli_tmp.'' @ pid env)] @ flush filepath"
  have run: "run_patch_script env fs filepath match_pattern new_line =
      (case sh_parse ?tokens ([], None) of
         None \<Rightarrow> None
       | Some cmds \<Rightarrow> sh_and_list env fs cmds)"
    unfolding run_patch_script_def sh_run_def sh_scan_awk_script
    by (simp only: option.case sh_tokens_awk_script)
  have parse: "sh_parse ?tokens ([], None) =
      Some [([''awk'', ''-v'', ''pattern='' @ match_pattern, ''-v'', ''new_line='' @ new_line,
              awk_program_text, filepath], Some (tmp_path env)),
            ([''mv'', tmp_path env, filepath], None)]"
    using assms by (simp add: flush_def tmp_path_def)
  show ?thesis unfolding run parse by simp
qed

lemma assignment_of_var:
  "assignment_of (CHR ''p'' # CHR ''a'' # CHR ''t'' # CHR ''t'' # CHR ''e'' # CHR ''r'' # CHR ''n'' #
     CHR ''='' # v) = Some (''pattern'', v)"
  "assignment_of (CHR ''n'' # CHR ''e'' # CHR ''w'' # CHR ''_'' # CHR ''l'' # CHR ''i'' # CHR ''n'' #
     CHR ''e'' # CHR ''='' # v) = Some (''new_line'', v)"
  by (simp_all add: assignment_of_def awk_name_def awk_letter_def)

lemma awk_command:
  assumes "assignment_of a = Some (''pattern'', match_pattern)"
    and "assignment_of b = Some (''new_line'', new_line)"
  shows "awk env fs [''-v'', a, ''-v'', b, awk_program_text, operand] =
     (if operand = ''-''
      then Some (awk_pass env [(''pattern'', match_pattern), (''new_line'', new_line)]
                   (Some (stdin env)))
      else
        (case assignment_of operand of
           None \<Rightarrow> Some (awk_pass env [(''pattern'', match_pattern), (''new_line'', new_line)]
                           (fs operand))
         | Some (name, text) \<Rightarrow>
             if name = ''found''
                \<or> \<not> list_ex (\<lambda>c. c \<in> set ''abcdefghijklmnopqrstuvwxyz'') name
             then None
             else Some (awk_pass env
                          ([(''pattern'', match_pattern), (''new_line'', new_line)] @
                           [(name, text)])
                          (Some (stdin env)))))"
  using assms by (simp add: awk_def awk_program_text_word)

lemmas awk_command_source = awk_command [OF assignment_of_var]

lemma awk_pass_run:
  "awk_pass env [(''pattern'', match_pattern), (''new_line'', new_line)] (Some content) =
     (case fault env of
        Some (AwkFails k) \<Rightarrow>
          (take k (awk_run (regex_match env) (other_escape env) match_pattern new_line
                     (records content)), 2)
      | _ \<Rightarrow>
          (awk_run (regex_match env) (other_escape env) match_pattern new_line
             (records content), 0))"
  by (simp add: awk_pass_def awk_var_def awk_run_def Let_def split: option.split fault.split)

lemma tmp_path_word: "take (Suc 0) (tmp_path env) \<noteq> ''-''"
  by (simp add: tmp_path_def)

lemma mv_command:
  "take 1 target \<noteq> ''-'' \<Longrightarrow>
   mv env fs [tmp_path env, target] =
     (case fs (tmp_path env) of
        None \<Rightarrow> Some (fs, 1)
      | Some content \<Rightarrow>
          if tmp_path env = target \<or> fault env = Some MvFails then Some (fs, 1)
          else Some ((fs(tmp_path env := None))(target \<mapsto> content), 0))"
  by (simp add: mv_def tmp_path_word)


lemma awk_step:
  assumes op: "file_operand filepath" and other: "filepath \<noteq> tmp_path env"
    and create: "fault env \<noteq> Some CannotCreate"
  shows "sh_simple env fs
           ([''awk'', ''-v'', ''pattern='' @ match_pattern, ''-v'', ''new_line='' @ new_line,
             awk_program_text, filepath], Some (tmp_path env)) =
         Some \<lparr>files = fs(tmp_path env \<mapsto>
                   printed (fst (awk_pass env
                     [(''pattern'', match_pattern), (''new_line'', new_line)] (fs filepath)))),
               exit_status = snd (awk_pass env
                     [(''pattern'', match_pattern), (''new_line'', new_line)] (fs filepath))\<rparr>"
proof -
  from op have no_assignment: "assignment_of filepath = None" and dash: "filepath \<noteq> ''-''"
    by (auto simp add: file_operand_def)
  show ?thesis
    using other create
    by (simp add: sh_simple_def awk_command_source no_assignment dash split: prod.split)
qed

lemma mv_step:
  assumes "take 1 filepath \<noteq> ''-''" and "filepath \<noteq> tmp_path env"
    and "fs1 (tmp_path env) = Some content"
  shows "sh_simple env fs1 ([''mv'', tmp_path env, filepath], None) =
         Some (if fault env = Some MvFails then \<lparr>files = fs1, exit_status = 1\<rparr>
               else \<lparr>files = (fs1(tmp_path env := None))(filepath \<mapsto> content),
                      exit_status = 0\<rparr>)"
  using assms(2, 3) by (auto simp add: sh_simple_def mv_command [OF assms(1)])

text \<open>What the command does for a path that awk and \<open>mv\<close> read as a file and that is not
  the temporary file, case by case.\<close>

lemma run_patch_script_file:
  assumes op: "file_operand filepath" and other: "filepath \<noteq> tmp_path env"
  shows "run_patch_script env fs filepath match_pattern new_line =
     Some
       (if fault env = Some CannotCreate then \<lparr>files = fs, exit_status = 2\<rparr>
        else
          (case fs filepath of
             None \<Rightarrow> \<lparr>files = fs(tmp_path env \<mapsto> []), exit_status = 2\<rparr>
           | Some content \<Rightarrow>
               (case fault env of
                  Some (AwkFails k) \<Rightarrow>
                    \<lparr>files = fs(tmp_path env \<mapsto>
                       printed (take k (awk_run (regex_match env) (other_escape env)
                         match_pattern new_line (records content)))),
                     exit_status = 2\<rparr>
                | Some MvFails \<Rightarrow>
                    \<lparr>files = fs(tmp_path env \<mapsto>
                       printed (awk_run (regex_match env) (other_escape env)
                         match_pattern new_line (records content))),
                     exit_status = 1\<rparr>
                | _ \<Rightarrow>
                    \<lparr>files = (fs(tmp_path env := None))(filepath \<mapsto>
                       printed (awk_run (regex_match env) (other_escape env)
                         match_pattern new_line (records content))),
                     exit_status = 0\<rparr>)))"
proof -
  let ?vars = "[(''pattern'', match_pattern), (''new_line'', new_line)]"
  let ?awk = "([''awk'', ''-v'', ''pattern='' @ match_pattern, ''-v'', ''new_line='' @ new_line,
      awk_program_text, filepath], Some (tmp_path env))"
  let ?mv = "([''mv'', tmp_path env, filepath], None :: string option)"
  let ?out = "\<lambda>content. awk_run (regex_match env) (other_escape env) match_pattern new_line
      (records content)"
  from op have nonempty: "filepath \<noteq> []" and word: "take 1 filepath \<noteq> ''-''"
    by (auto simp add: file_operand_def)
  note run = run_patch_script_commands [OF nonempty, of env fs match_pattern new_line]
  show ?thesis
  proof (cases "fault env = Some CannotCreate")
    case True
    then have "sh_simple env fs ?awk = Some \<lparr>files = fs, exit_status = 2\<rparr>"
      by (simp add: sh_simple_def)
    with True show ?thesis unfolding run by simp
  next
    case create: False
    note awk = awk_step [OF op other create, of fs match_pattern new_line]
    show ?thesis
    proof (cases "fs filepath")
      case None
      then have "awk_pass env ?vars (fs filepath) = ([], 2)"
        by (simp add: awk_pass_def)
      with awk have "sh_simple env fs ?awk =
          Some \<lparr>files = fs(tmp_path env \<mapsto> []), exit_status = 2\<rparr>"
        by (simp add: printed_def)
      with create None show ?thesis unfolding run by simp
    next
      case (Some content)
      show ?thesis
      proof (cases "\<exists>k. fault env = Some (AwkFails k)")
        case True
        then obtain k where k: "fault env = Some (AwkFails k)" by blast
        with Some have "awk_pass env ?vars (fs filepath) = (take k (?out content), 2)"
          by (simp add: awk_pass_run)
        with awk have "sh_simple env fs ?awk =
            Some \<lparr>files = fs(tmp_path env \<mapsto> printed (take k (?out content))),
                  exit_status = 2\<rparr>"
          by simp
        with create Some k show ?thesis unfolding run by simp
      next
        case False
        with create Some have pass: "awk_pass env ?vars (fs filepath) = (?out content, 0)"
          by (simp add: awk_pass_run split: option.split fault.split)
        with awk have first: "sh_simple env fs ?awk =
            Some \<lparr>files = fs(tmp_path env \<mapsto> printed (?out content)), exit_status = 0\<rparr>"
          by simp
        have tmp: "(fs(tmp_path env \<mapsto> printed (?out content))) (tmp_path env) =
            Some (printed (?out content))"
          by simp
        note second = mv_step [where ?fs1.0 = "fs(tmp_path env \<mapsto> printed (?out content))"
            and content = "printed (?out content)" and env = env and filepath = filepath,
            OF word other tmp]
        have none: "fault env \<noteq> Some MvFails \<Longrightarrow> fault env = None"
          using create False by (cases "fault env"; cases "the (fault env)") auto
        from create False Some first second none show ?thesis
          unfolding run
          by (cases "fault env = Some MvFails") simp_all
      qed
    qed
  qed
qed

subsection \<open>The files after the command\<close>

lemma printed_simps:
  "printed [] = []" "printed (l # ls) = l @ CHR 0x0A # printed ls"
  by (simp_all add: printed_def)

lemma printed_records_from:
  "CHR 0x0A \<notin> set cur \<Longrightarrow>
   printed (records_from cur s) = newline_terminated (cur @ s)"
proof (induction s arbitrary: cur)
  case Nil
  then show ?case
    by (cases cur rule: rev_cases) (auto simp add: printed_simps newline_terminated_def)
next
  case (Cons c s)
  show ?case
  proof (cases "c = CHR 0x0A")
    case True
    have "printed (records_from [] s) = newline_terminated ([] @ s)"
      by (rule Cons.IH) simp
    with True show ?thesis
      by (auto simp add: printed_simps newline_terminated_def)
  next
    case False
    with Cons.prems have "CHR 0x0A \<notin> set (cur @ [c])" by simp
    from Cons.IH [OF this] False show ?thesis by simp
  qed
qed

lemma printed_records: "printed (records content) = newline_terminated content"
  using printed_records_from [of "[]" content] by (simp add: records_def)

lemma awk_rules_no_match:
  "list_all (\<lambda>l. \<not> matches l pattern) lines \<Longrightarrow>
   awk_rules matches pattern new_line found lines = lines"
  by (induction lines) simp_all


text \<open>
  C8, as the code has it. When the path is one that awk and \<open>mv\<close> read as a file, it is
  not the temporary file, the file exists, nothing fails and no record matches the
  pattern, the command ends with status 0, the temporary file is gone (it was moved over
  the file) and the file holds its old content with its last line ended by a newline:
  exactly the old content when that content is empty or ends with a newline, the old
  content and one more newline otherwise.
\<close>

theorem patch_no_match_rewrites:
  assumes "file_operand filepath"
    and "filepath \<noteq> tmp_path env"
    and "fault env = None"
    and "fs filepath = Some content"
    and "list_all (\<lambda>l. \<not> regex_match env l (awk_escapes (other_escape env) match_pattern))
           (records content)"
  shows "run_patch_script env fs filepath match_pattern new_line =
           Some \<lparr>files = (fs(tmp_path env := None))(filepath \<mapsto> newline_terminated content),
                 exit_status = 0\<rparr>
         \<and> (newline_terminated content = content) = (content = [] \<or> last content = CHR 0x0A)"
proof -
  have out: "awk_run (regex_match env) (other_escape env) match_pattern new_line
      (records content) = records content"
    unfolding awk_run_def using assms(5) by (rule awk_rules_no_match)
  have run: "run_patch_script env fs filepath match_pattern new_line =
      Some \<lparr>files = (fs(tmp_path env := None))(filepath \<mapsto> newline_terminated content),
            exit_status = 0\<rparr>"
    unfolding run_patch_script_file [OF assms(1, 2)]
    using assms(3, 4) by (simp add: out printed_records)
  have nl: "(newline_terminated content = content) = (content = [] \<or> last content = CHR 0x0A)"
    by (simp add: newline_terminated_def)
  from run nl show ?thesis by (rule conjI)
qed

lemma main_py_operand:
  "file_operand ''/opt/app/main.py''" "''/opt/app/main.py'' \<noteq> tmp_path plain_remote"
  "fault plain_remote = None"
  by (simp_all add: file_operand_def assignment_of_def tmp_path_def plain_remote_def)

theorem patch_no_match_rewrites_witness:
  "run_patch_script plain_remote [''/opt/app/main.py'' \<mapsto> ''x = 1'' @ [CHR 0x0A]]
     ''/opt/app/main.py'' ''def run'' ''pass'' =
     Some \<lparr>files = [''/opt/app/main.py'' \<mapsto> ''x = 1'' @ [CHR 0x0A]], exit_status = 0\<rparr>"
proof -
  have b: "[''/opt/app/main.py'' \<mapsto> ''x = 1'' @ [CHR 0x0A]] ''/opt/app/main.py'' =
      Some (''x = 1'' @ [CHR 0x0A])"
    by simp
  have c: "list_all (\<lambda>l. \<not> regex_match plain_remote l
        (awk_escapes (other_escape plain_remote) ''def run''))
      (records (''x = 1'' @ [CHR 0x0A]))"
    by (simp add: records_def plain_remote_def)
  note inst = patch_no_match_rewrites [where env = plain_remote
      and filepath = "''/opt/app/main.py''"
      and fs = "[''/opt/app/main.py'' \<mapsto> ''x = 1'' @ [CHR 0x0A]]"
      and content = "''x = 1'' @ [CHR 0x0A]"
      and match_pattern = "''def run''" and new_line = "''pass''"]
  from inst [OF main_py_operand b c] show ?thesis
    by (simp add: newline_terminated_def)
qed

text \<open>
  C8 as stated fails in two ways. For a file whose last line has no newline, \<open>print\<close> adds
  one: the file that held \<open>abc\<close> holds \<open>abc\<close> and a newline. For the file \<open>x=1\<close> of the
  working directory, awk reads the operand as an assignment and reads its standard input
  instead, which is empty: the file, which held a line that does not match, is left empty
  with status 0.
\<close>

theorem patch_no_match_counterexample:
  "\<not> literal_match ''abc'' ''def run''
   \<and> run_patch_script plain_remote [''/opt/app/main.py'' \<mapsto> ''abc'']
       ''/opt/app/main.py'' ''def run'' ''pass'' =
     Some \<lparr>files = [''/opt/app/main.py'' \<mapsto> ''abc'' @ [CHR 0x0A]], exit_status = 0\<rparr>
   \<and> ''abc'' @ [CHR 0x0A] \<noteq> ''abc''
   \<and> \<not> literal_match ''a'' ''def run''
   \<and> run_patch_script plain_remote [''x=1'' \<mapsto> ''a'' @ [CHR 0x0A]] ''x=1'' ''def run'' ''pass'' =
     Some \<lparr>files = [''x=1'' \<mapsto> []], exit_status = 0\<rparr>"
proof -
  have first: "run_patch_script plain_remote [''/opt/app/main.py'' \<mapsto> ''abc'']
       ''/opt/app/main.py'' ''def run'' ''pass'' =
     Some \<lparr>files = [''/opt/app/main.py'' \<mapsto> ''abc'' @ [CHR 0x0A]], exit_status = 0\<rparr>"
    unfolding run_patch_script_file [OF main_py_operand(1, 2)]
    by (simp add: plain_remote_def records_def awk_run_def printed_def)
  have nonempty: "''x=1'' \<noteq> []" by simp
  have second: "run_patch_script plain_remote [''x=1'' \<mapsto> ''a'' @ [CHR 0x0A]] ''x=1''
       ''def run'' ''pass'' =
     Some \<lparr>files = [''x=1'' \<mapsto> []], exit_status = 0\<rparr>"
    unfolding run_patch_script_commands [OF nonempty]
    by (simp add: sh_simple_def awk_command_source mv_def assignment_of_def
        awk_name_def awk_letter_def awk_pass_def records_def printed_def plain_remote_def
        tmp_path_def)
  from first second show ?thesis by simp
qed




end
